theory Spec2Isabelle
  imports Complex_Main "HOL-Library.Char_ord" "HOL-Library.List_Lexorder" "HOL-Library.Product_Lexorder"
    "HOL-Library.Option_ord" "HOL-Library.Sublist" "HOL-Library.Multiset"
begin

section \<open>Python values\<close>

text \<open>
  A Python float is a binary64 value: a finite number, an infinity or NaN. A finite value is
  represented by the rational it denotes; the two zeros are not told apart (they compare
  equal and are both falsy).
\<close>

datatype pyfloat = Finite rat | PosInf | NegInf | NaN

text \<open>\<open>a < b\<close> on floats: every comparison with NaN is false.\<close>

fun float_lt :: "pyfloat \<Rightarrow> pyfloat \<Rightarrow> bool" where
  "float_lt NaN _ = False"
| "float_lt _ NaN = False"
| "float_lt (Finite a) (Finite b) = (a < b)"
| "float_lt (Finite a) PosInf = True"
| "float_lt (Finite a) NegInf = False"
| "float_lt PosInf _ = False"
| "float_lt NegInf NegInf = False"
| "float_lt NegInf _ = True"

definition float_gt :: "pyfloat \<Rightarrow> pyfloat \<Rightarrow> bool" where
  "float_gt a b = float_lt b a"

text \<open>
  The value \<open>request.get_json()\<close> hands to the handlers: any JSON value, already decoded
  into Python objects. An object is kept as its list of items; \<open>map_of\<close> reads a key.
  Strings are lists of code points below 256.
\<close>

datatype json =
    JNull
  | JBool bool
  | JInt int
  | JFloat pyfloat
  | JStr string
  | JArr "json list"
  | JObj "(string \<times> json) list"

text \<open>The exceptions the modelled code can meet, each with the text \<open>str(e)\<close> gives.\<close>

datatype py_exn =
    AttributeError string
  | TypeError string
  | ValueError string
  | OverflowError string
  | KeyError string
  | IndexError string
  | ImportError string
  | PyException string

fun str_exn :: "py_exn \<Rightarrow> string" where
  "str_exn (AttributeError m) = m"
| "str_exn (TypeError m) = m"
| "str_exn (ValueError m) = m"
| "str_exn (OverflowError m) = m"
| "str_exn (KeyError m) = m"
| "str_exn (IndexError m) = m"
| "str_exn (ImportError m) = m"
| "str_exn (PyException m) = m"

fun type_name :: "json \<Rightarrow> string" where
  "type_name JNull = ''NoneType''"
| "type_name (JBool _) = ''bool''"
| "type_name (JInt _) = ''int''"
| "type_name (JFloat _) = ''float''"
| "type_name (JStr _) = ''str''"
| "type_name (JArr _) = ''list''"
| "type_name (JObj _) = ''dict''"

text \<open>Truth value of an object, as \<open>not x\<close> and \<open>if x\<close> test it.\<close>

fun truthy :: "json \<Rightarrow> bool" where
  "truthy JNull = False"
| "truthy (JBool b) = b"
| "truthy (JInt i) = (i \<noteq> 0)"
| "truthy (JFloat f) = (f \<noteq> Finite 0)"
| "truthy (JStr s) = (s \<noteq> [])"
| "truthy (JArr xs) = (xs \<noteq> [])"
| "truthy (JObj kvs) = (kvs \<noteq> [])"

definition no_attribute :: "json \<Rightarrow> string \<Rightarrow> py_exn" where
  "no_attribute v a =
     AttributeError ([CHR 0x27] @ type_name v @ [CHR 0x27] @ '' object has no attribute ''
        @ [CHR 0x27] @ a @ [CHR 0x27])"

text \<open>\<open>d.get(k)\<close> and \<open>d.get(k, default)\<close>: only a dict has the method.\<close>

definition py_get :: "json \<Rightarrow> string \<Rightarrow> json \<Rightarrow> py_exn + json" where
  "py_get d k dflt =
     (case d of
        JObj kvs \<Rightarrow> (case map_of kvs k of Some v \<Rightarrow> Inr v | None \<Rightarrow> Inr dflt)
      | _ \<Rightarrow> Inl (no_attribute d ''get''))"

subsection \<open>Strings\<close>

text \<open>The code points below 256 that \<open>str.strip()\<close> removes.\<close>

definition py_isspace :: "char \<Rightarrow> bool" where
  "py_isspace c = ((of_char c :: nat) \<in> {9, 10, 11, 12, 13, 28, 29, 30, 31, 32, 133, 160})"

definition strip :: "string \<Rightarrow> string" where
  "strip s = rev (dropWhile py_isspace (rev (dropWhile py_isspace s)))"

definition py_strip :: "json \<Rightarrow> py_exn + string" where
  "py_strip v = (case v of JStr s \<Rightarrow> Inr (strip s) | _ \<Rightarrow> Inl (no_attribute v ''strip''))"

subsection \<open>The builtin \<open>float\<close>\<close>

text \<open>
  \<open>float(x)\<close> rounds to the nearest binary64 value, ties to even: 53 significant bits,
  least exponent \<open>-1074\<close>. A string that rounds beyond the largest float gives an infinity;
  an int that does, which is one from \<open>2^1024 - 2^970\<close> on (half way between the largest
  float and \<open>2^1024\<close>), raises \<open>OverflowError\<close>.
\<close>

function bit_length :: "int \<Rightarrow> nat" where
  "bit_length n = (if n \<le> 0 then 0 else Suc (bit_length (n div 2)))"
  by pat_completeness auto
termination
  by (relation "measure nat") auto

declare bit_length.simps [simp del]

definition pow2 :: "int \<Rightarrow> rat" where
  "pow2 e = (if 0 \<le> e then 2 ^ nat e else 1 / 2 ^ nat (- e))"

definition pow10 :: "int \<Rightarrow> rat" where
  "pow10 e = (if 0 \<le> e then 10 ^ nat e else 1 / 10 ^ nat (- e))"

definition floor_log2 :: "rat \<Rightarrow> int" where
  "floor_log2 x =
     (let (a, b) = quotient_of x;
          k = int (bit_length a) - int (bit_length b)
      in if pow2 k \<le> x then k else k - 1)"

definition round_half_even :: "rat \<Rightarrow> int" where
  "round_half_even x =
     (let f = \<lfloor>x\<rfloor>; d = x - of_int f
      in if d < 1 / 2 then f else if 1 / 2 < d then f + 1 else if even f then f else f + 1)"

definition round_binary64 :: "rat \<Rightarrow> rat" where
  "round_binary64 x =
     (if x = 0 then 0
      else let e = max (floor_log2 \<bar>x\<bar> - 52) (- 1074)
           in of_int (round_half_even (x / pow2 e)) * pow2 e)"

definition float_of_rat :: "rat \<Rightarrow> pyfloat" where
  "float_of_rat x =
     (let v = round_binary64 x
      in if 2 ^ 1024 \<le> v then PosInf else if v \<le> - (2 ^ 1024) then NegInf else Finite v)"

definition float_of_int :: "int \<Rightarrow> py_exn + pyfloat" where
  "float_of_int i =
     (if 2 ^ 1024 - 2 ^ 970 \<le> \<bar>i\<bar> then Inl (OverflowError ''int too large to convert to float'')
      else Inr (Finite (round_binary64 (of_int i))))"

text \<open>
  \<open>float\<close> strips less than \<open>str.strip()\<close>: the ASCII white space of C, and the two
  other spaces below 256, which it first turns into blanks. The code points U+001C to
  U+001F stay, and make the text invalid.
\<close>

definition float_isspace :: "char \<Rightarrow> bool" where
  "float_isspace c = ((of_char c :: nat) \<in> {9, 10, 11, 12, 13, 32, 133, 160})"

definition float_strip :: "string \<Rightarrow> string" where
  "float_strip s = rev (dropWhile float_isspace (rev (dropWhile float_isspace s)))"

text \<open>
  The text \<open>float\<close> accepts, after stripping: an optional sign, then \<open>inf\<close>, \<open>infinity\<close> or
  \<open>nan\<close> in any case, or a decimal number with an optional exponent; an underscore may
  stand between two digits.
\<close>

definition is_digit :: "char \<Rightarrow> bool" where
  "is_digit c = (48 \<le> (of_char c :: nat) \<and> (of_char c :: nat) \<le> 57)"

definition digit_val :: "char \<Rightarrow> int" where
  "digit_val c = of_char c - 48"

definition lower :: "char \<Rightarrow> char" where
  "lower c = (if 65 \<le> (of_char c :: nat) \<and> (of_char c :: nat) \<le> 90
              then char_of ((of_char c :: nat) + 32) else c)"

fun digits_us :: "string \<Rightarrow> int list \<times> string" where
  "digits_us [] = ([], [])"
| "digits_us [c] = (if is_digit c then ([digit_val c], []) else ([], [c]))"
| "digits_us (c # d # cs) =
     (if is_digit c then (case digits_us (d # cs) of (ds, r) \<Rightarrow> (digit_val c # ds, r))
      else if c = CHR ''_'' \<and> is_digit d then digits_us (d # cs)
      else ([], c # d # cs))"

definition digitpart :: "string \<Rightarrow> (int list \<times> string) option" where
  "digitpart s =
     (case s of [] \<Rightarrow> None | c # _ \<Rightarrow> if is_digit c then Some (digits_us s) else None)"

definition int_of_digits :: "int list \<Rightarrow> int" where
  "int_of_digits ds = foldl (\<lambda>n d. 10 * n + d) 0 ds"

definition parse_sign :: "string \<Rightarrow> bool \<times> string" where
  "parse_sign s =
     (case s of
        [] \<Rightarrow> (False, [])
      | c # r \<Rightarrow> if c = CHR ''-'' then (True, r) else if c = CHR ''+'' then (False, r)
                 else (False, s))"

definition parse_number :: "string \<Rightarrow> (int list \<times> int list \<times> string) option" where
  "parse_number s =
     (case digitpart s of
        Some (ip, r) \<Rightarrow>
          (case r of
             [] \<Rightarrow> Some (ip, [], [])
           | c # r' \<Rightarrow>
               if c = CHR ''.'' then
                 (case digitpart r' of
                    Some (fp, r'') \<Rightarrow> Some (ip, fp, r'')
                  | None \<Rightarrow> Some (ip, [], r'))
               else Some (ip, [], r))
      | None \<Rightarrow>
          (case s of
             [] \<Rightarrow> None
           | c # r' \<Rightarrow>
               if c = CHR ''.'' then
                 (case digitpart r' of
                    Some (fp, r'') \<Rightarrow> Some ([], fp, r'')
                  | None \<Rightarrow> None)
               else None))"

definition parse_exponent :: "string \<Rightarrow> int option" where
  "parse_exponent r =
     (case r of
        [] \<Rightarrow> Some 0
      | c # r' \<Rightarrow>
          if c = CHR ''e'' \<or> c = CHR ''E'' then
            (case parse_sign r' of
               (neg, r'') \<Rightarrow>
                 (case digitpart r'' of
                    Some (ds, []) \<Rightarrow>
                      Some (if neg then - int_of_digits ds else int_of_digits ds)
                  | _ \<Rightarrow> None))
          else None)"

definition float_of_string :: "string \<Rightarrow> py_exn + pyfloat" where
  "float_of_string s0 =
     (case parse_sign (float_strip s0) of
        (neg, s) \<Rightarrow>
          if map lower s = ''inf'' \<or> map lower s = ''infinity''
          then Inr (if neg then NegInf else PosInf)
          else if map lower s = ''nan'' then Inr NaN
          else
            (case parse_number s of
               None \<Rightarrow> Inl (ValueError (''could not convert string to float: '' @ s0))
             | Some (ip, fp, r) \<Rightarrow>
                 (case parse_exponent r of
                    None \<Rightarrow> Inl (ValueError (''could not convert string to float: '' @ s0))
                  | Some e \<Rightarrow>
                      (let x = of_int (int_of_digits (ip @ fp)) * pow10 (e - int (length fp))
                       in Inr (float_of_rat (if neg then - x else x))))))"

definition py_float :: "json \<Rightarrow> py_exn + pyfloat" where
  "py_float v =
     (case v of
        JBool b \<Rightarrow> Inr (Finite (if b then 1 else 0))
      | JInt i \<Rightarrow> float_of_int i
      | JFloat f \<Rightarrow> Inr f
      | JStr s \<Rightarrow> float_of_string s
      | _ \<Rightarrow> Inl (TypeError (''float() argument must be a string or a real number, not ''
                 @ [CHR 0x27] @ type_name v @ [CHR 0x27])))"

section \<open>Request validators (utils.py)\<close>

definition validate_translation_request :: "json \<Rightarrow> py_exn + (bool \<times> string option)" where
  "validate_translation_request data =
     (if \<not> truthy data then Inr (False, Some ''No data provided'')
      else
        (case py_get data ''text'' (JStr []) of
           Inl e \<Rightarrow> Inl e
         | Inr t \<Rightarrow>
        (case py_strip t of
           Inl e \<Rightarrow> Inl e
         | Inr source_text \<Rightarrow>
        (case py_get data ''target_language'' (JStr []) of
           Inl e \<Rightarrow> Inl e
         | Inr l \<Rightarrow>
        (case py_strip l of
           Inl e \<Rightarrow> Inl e
         | Inr target_language \<Rightarrow>
             if source_text = [] then Inr (False, Some ''Please enter text to translate'')
             else if target_language = [] then Inr (False, Some ''Please select a target language'')
             else if 5000 < length source_text
             then Inr (False, Some ''Text is too long. Maximum 5000 characters allowed.'')
             else Inr (True, None))))))"

definition validate_test_result_data ::
  "json \<Rightarrow> py_exn + (bool \<times> string option \<times> pyfloat option)" where
  "validate_test_result_data data =
     (if \<not> truthy data then Inr (False, Some ''No data provided'', None)
      else
        (case py_get data ''outcome'' JNull of
           Inl e \<Rightarrow> Inl e
         | Inr outcome \<Rightarrow>
             if \<not> truthy outcome then Inr (False, Some ''Outcome is required'', None)
             else
               (case py_get data ''accuracy'' JNull of
                  Inl e \<Rightarrow> Inl e
                | Inr a \<Rightarrow>
                    if \<not> truthy a then Inr (False, Some ''Accuracy is required'', None)
                    else
                      (case py_float a of
                         Inl (ValueError m) \<Rightarrow>
                           Inr (False, Some ''Accuracy must be a valid number'', None)
                       | Inl (TypeError m) \<Rightarrow>
                           Inr (False, Some ''Accuracy must be a valid number'', None)
                       | Inl e \<Rightarrow> Inl e
                       | Inr accuracy \<Rightarrow>
                           if float_lt accuracy (Finite 0) \<or> float_gt accuracy (Finite 100)
                           then Inr (False, Some ''Accuracy must be between 0 and 100'', None)
                           else Inr (True, None, Some accuracy)))))"

subsection \<open>Operations on decoded JSON\<close>

definition py_len :: "json \<Rightarrow> py_exn + nat" where
  "py_len v =
     (case v of
        JStr s \<Rightarrow> Inr (length s)
      | JArr xs \<Rightarrow> Inr (length xs)
      | JObj kvs \<Rightarrow> Inr (length kvs)
      | _ \<Rightarrow> Inl (TypeError (''object of type '' @ [CHR 0x27] @ type_name v @ [CHR 0x27]
                 @ '' has no len()'')))"

text \<open>\<open>v[0]\<close>. The keys of a decoded JSON object are strings, so \<open>0\<close> is never one.\<close>

definition py_index0 :: "json \<Rightarrow> py_exn + json" where
  "py_index0 v =
     (case v of
        JArr xs \<Rightarrow> (case xs of [] \<Rightarrow> Inl (IndexError ''list index out of range'') | x # _ \<Rightarrow> Inr x)
      | JStr s \<Rightarrow> (case s of [] \<Rightarrow> Inl (IndexError ''string index out of range'')
                    | c # _ \<Rightarrow> Inr (JStr [c]))
      | JObj kvs \<Rightarrow> Inl (KeyError ''0'')
      | _ \<Rightarrow> Inl (TypeError ([CHR 0x27] @ type_name v @ [CHR 0x27]
                 @ '' object is not subscriptable'')))"

text \<open>\<open>k in v\<close> for a string \<open>k\<close>: a key of a dict, an element of a list, a substring of a string.\<close>

definition py_contains_str :: "string \<Rightarrow> json \<Rightarrow> py_exn + bool" where
  "py_contains_str k v =
     (case v of
        JObj kvs \<Rightarrow> Inr (map_of kvs k \<noteq> None)
      | JArr xs \<Rightarrow> Inr (JStr k \<in> set xs)
      | JStr s \<Rightarrow> Inr (sublist k s)
      | _ \<Rightarrow> Inl (TypeError (''argument of type '' @ [CHR 0x27] @ type_name v @ [CHR 0x27]
                 @ '' is not iterable'')))"

text \<open>\<open>v[k]\<close> for a string \<open>k\<close>.\<close>

definition py_getitem_str :: "json \<Rightarrow> string \<Rightarrow> py_exn + json" where
  "py_getitem_str v k =
     (case v of
        JObj kvs \<Rightarrow>
          (case map_of kvs k of
             Some x \<Rightarrow> Inr x
           | None \<Rightarrow> Inl (KeyError ([CHR 0x27] @ k @ [CHR 0x27])))
      | JArr xs \<Rightarrow> Inl (TypeError ''list indices must be integers or slices, not str'')
      | JStr s \<Rightarrow> Inl (TypeError (''string indices must be integers, not '' @ [CHR 0x27] @ ''str'' @ [CHR 0x27]))
      | _ \<Rightarrow> Inl (TypeError ([CHR 0x27] @ type_name v @ [CHR 0x27]
                 @ '' object is not subscriptable'')))"

text \<open>\<open>v.items()\<close>\<close>

definition py_items :: "json \<Rightarrow> py_exn + (string \<times> json) list" where
  "py_items v = (case v of JObj kvs \<Rightarrow> Inr kvs | _ \<Rightarrow> Inl (no_attribute v ''items''))"

section \<open>Configuration (config.py)\<close>

text \<open>The three class attributes read from the environment: absent, or a string.\<close>

record azure_translator_config =
  TRANSLATOR_KEY :: "string option"
  TRANSLATOR_ENDPOINT :: "string option"
  TRANSLATOR_REGION :: "string option"

definition env_truthy :: "string option \<Rightarrow> bool" where
  "env_truthy v = (case v of None \<Rightarrow> False | Some s \<Rightarrow> s \<noteq> [])"

definition is_configured :: "azure_translator_config \<Rightarrow> bool" where
  "is_configured c =
     list_all env_truthy [TRANSLATOR_KEY c, TRANSLATOR_ENDPOINT c, TRANSLATOR_REGION c]"

section \<open>Translator service (services/translator.py)\<close>

text \<open>
  What one call into the HTTP library (\<open>requests.get\<close> or \<open>requests.post\<close>, then
  \<open>raise_for_status\<close>, then \<open>response.json()\<close>) comes to: one of the library's exceptions, by
  the class the handlers tell apart, or the decoded body. \<open>RequestException\<close> stands for
  every exception of that class that is not a \<open>Timeout\<close>; the strings are \<open>str(e)\<close>.
\<close>

datatype http_outcome =
    Timeout string
  | RequestException string
  | OtherException py_exn
  | JsonBody json

record language =
  lang_key :: string
  lang_text :: json

record translator_service =
  subscription_key :: "string option"
  endpoint :: "string option"
  region :: "string option"
  languages_cache :: "language list option"

definition init_service :: "azure_translator_config \<Rightarrow> translator_service" where
  "init_service c =
     \<lparr>subscription_key = TRANSLATOR_KEY c, endpoint = TRANSLATOR_ENDPOINT c,
      region = TRANSLATOR_REGION c, languages_cache = None\<rparr>"

definition sentinel :: language where
  "sentinel = \<lparr>lang_key = [], lang_text = JStr ''Select Target Language''\<rparr>"

definition mk_language :: "string \<Rightarrow> string \<Rightarrow> language" where
  "mk_language k t = \<lparr>lang_key = k, lang_text = JStr t\<rparr>"

definition get_fallback_languages :: "language list" where
  "get_fallback_languages =
     [sentinel,
      mk_language ''ar'' ''Arabic'',
      mk_language ''zh'' ''Chinese (Simplified)'',
      mk_language ''da'' ''Danish'',
      mk_language ''nl'' ''Dutch'',
      mk_language ''fi'' ''Finnish'',
      mk_language ''fr'' ''French'',
      mk_language ''de'' ''German'',
      mk_language ''hi'' ''Hindi'',
      mk_language ''it'' ''Italian'',
      mk_language ''ja'' ''Japanese'',
      mk_language ''ko'' ''Korean'',
      mk_language ''no'' ''Norwegian'',
      mk_language ''pl'' ''Polish'',
      mk_language ''pt'' ''Portuguese'',
      mk_language ''ru'' ''Russian'',
      mk_language ''es'' ''Spanish'',
      mk_language ''sv'' ''Swedish'',
      mk_language ''th'' ''Thai'',
      mk_language ''tr'' ''Turkish'']"

text \<open>The loop over \<open>data['translation'].items()\<close>: \<open>value.get('name', key)\<close> for each item.\<close>

fun append_languages :: "(string \<times> json) list \<Rightarrow> py_exn + language list" where
  "append_languages [] = Inr []"
| "append_languages ((k, v) # kvs) =
     (case py_get v ''name'' (JStr k) of
        Inl e \<Rightarrow> Inl e
      | Inr t \<Rightarrow>
          (case append_languages kvs of
             Inl e \<Rightarrow> Inl e
           | Inr ls \<Rightarrow> Inr (\<lparr>lang_key = k, lang_text = t\<rparr> # ls)))"

definition is_str :: "json \<Rightarrow> bool" where
  "is_str v = (case v of JStr _ \<Rightarrow> True | _ \<Rightarrow> False)"

definition str_of :: "json \<Rightarrow> string" where
  "str_of v = (case v of JStr s \<Rightarrow> s | _ \<Rightarrow> [])"

text \<open>
  \<open>sorted(ls, key=lambda x: x['text'])\<close>: a stable sort. It makes no comparison on fewer
  than two entries. On two or more, every entry is compared with another one. Strings
  are ordered by code point; integers, booleans and floats by their value, a boolean
  counting as 0 or 1, and \<open>num_key\<close> is that value with the infinities at the ends.
  Comparing values of two of the kinds string, number and array, or \<open>None\<close> or a dict with
  anything, raises \<open>TypeError\<close>. The order Python gives keys that are all arrays, or
  numbers with a NaN among them, depends on the comparisons its algorithm happens to
  make: the model takes them with the keys that fail.
\<close>

definition num_key :: "json \<Rightarrow> (int \<times> rat) option" where
  "num_key v =
     (case v of
        JInt i \<Rightarrow> Some (1, of_int i)
      | JBool b \<Rightarrow> Some (1, if b then 1 else 0)
      | JFloat (Finite r) \<Rightarrow> Some (1, r)
      | JFloat PosInf \<Rightarrow> Some (2, 0)
      | JFloat NegInf \<Rightarrow> Some (0, 0)
      | _ \<Rightarrow> None)"

definition sorted_by_text :: "language list \<Rightarrow> py_exn + language list" where
  "sorted_by_text ls =
     (if list_all (\<lambda>l. is_str (lang_text l)) ls then Inr (sort_key (\<lambda>l. str_of (lang_text l)) ls)
      else if length ls \<le> 1 then Inr ls
      else if list_all (\<lambda>l. num_key (lang_text l) \<noteq> None) ls
      then Inr (sort_key (\<lambda>l. num_key (lang_text l)) ls)
      else Inl (TypeError ([CHR 0x27, CHR 0x3C, CHR 0x27] @ '' not supported between instances'')))"

text \<open>The \<open>try\<close> block of \<open>get_supported_languages\<close>, from the outcome of the GET.\<close>

definition load_languages :: "http_outcome \<Rightarrow> py_exn + language list" where
  "load_languages r =
     (case r of
        Timeout m \<Rightarrow> Inl (PyException m)
      | RequestException m \<Rightarrow> Inl (PyException m)
      | OtherException e \<Rightarrow> Inl e
      | JsonBody data \<Rightarrow>
          (case py_contains_str ''translation'' data of
             Inl e \<Rightarrow> Inl e
           | Inr False \<Rightarrow> Inl (PyException ''Invalid API response structure'')
           | Inr True \<Rightarrow>
               (case py_getitem_str data ''translation'' of
                  Inl e \<Rightarrow> Inl e
                | Inr tr \<Rightarrow>
                    (case py_items tr of
                       Inl e \<Rightarrow> Inl e
                     | Inr kvs \<Rightarrow>
                         (case append_languages kvs of
                            Inl e \<Rightarrow> Inl e
                          | Inr ls \<Rightarrow>
                              (case sorted_by_text ls of
                                 Inl e \<Rightarrow> Inl e
                               | Inr sl \<Rightarrow> Inr (sentinel # sl)))))))"

text \<open>
  \<open>get_supported_languages\<close>: the list returned, the service afterwards and the number of
  GET requests sent. \<open>r\<close> is what the provider answers if it is asked.
\<close>

definition get_supported_languages ::
  "http_outcome \<Rightarrow> translator_service \<Rightarrow> language list \<times> translator_service \<times> nat" where
  "get_supported_languages r svc =
     (case languages_cache svc of
        Some (l # ls) \<Rightarrow> (l # ls, svc, 0)
      | _ \<Rightarrow>
          (case load_languages r of
             Inr languages \<Rightarrow> (languages, svc\<lparr>languages_cache := Some languages\<rparr>, 1)
           | Inl e \<Rightarrow> (get_fallback_languages, svc, 1)))"

text \<open>A run of calls, one provider answer held ready for each.\<close>

fun calls ::
  "http_outcome list \<Rightarrow> translator_service \<Rightarrow> (language list \<times> nat) list \<times> translator_service"
  where
  "calls [] svc = ([], svc)"
| "calls (r # rs) svc =
     (case get_supported_languages r svc of
        (ls, svc', n) \<Rightarrow> (case calls rs svc' of (out, svc'') \<Rightarrow> ((ls, n) # out, svc'')))"

subsection \<open>\<open>translate_text\<close>\<close>

record http_request =
  req_url :: string
  req_params :: "(string \<times> string) list"
  req_headers :: "(string \<times> string) list"
  req_json :: json
  req_timeout :: nat

text \<open>An attribute formatted into an f-string or sent as a header.\<close>

definition fmt :: "string option \<Rightarrow> string" where
  "fmt v = (case v of None \<Rightarrow> ''None'' | Some s \<Rightarrow> s)"

definition translate_request :: "translator_service \<Rightarrow> string \<Rightarrow> string \<Rightarrow> http_request" where
  "translate_request svc txt target_language =
     \<lparr>req_url = fmt (endpoint svc) @ ''/translator/text/v3.0/translate'',
      req_params = [(''api-version'', ''3.0''), (''to'', target_language)],
      req_headers =
        [(''Ocp-Apim-Subscription-Key'', fmt (subscription_key svc)),
         (''Ocp-Apim-Subscription-Region'', fmt (region svc)),
         (''Content-Type'', ''application/json'')],
      req_json = JArr [JObj [(''text'', JStr txt)]],
      req_timeout = 30\<rparr>"

definition failure :: "string \<Rightarrow> json" where
  "failure msg = JObj [(''success'', JBool False), (''error'', JStr msg)]"

text \<open>The success branch: \<open>result[0]['translations'][0]['text']\<close> and the detected language.\<close>

definition build_translation :: "json \<Rightarrow> string \<Rightarrow> py_exn + json" where
  "build_translation r0 target_language =
     (case py_getitem_str r0 ''translations'' of
        Inl e \<Rightarrow> Inl e
      | Inr ts \<Rightarrow>
     (case py_index0 ts of
        Inl e \<Rightarrow> Inl e
      | Inr t0 \<Rightarrow>
     (case py_getitem_str t0 ''text'' of
        Inl e \<Rightarrow> Inl e
      | Inr translated_text \<Rightarrow>
     (case py_get r0 ''detectedLanguage'' (JObj []) of
        Inl e \<Rightarrow> Inl e
      | Inr dl \<Rightarrow>
     (case py_get dl ''language'' (JStr ''auto'') of
        Inl e \<Rightarrow> Inl e
      | Inr source_language \<Rightarrow>
          Inr (JObj [(''success'', JBool True),
                     (''translated_text'', translated_text),
                     (''source_language'', source_language),
                     (''target_language'', JStr target_language)]))))))"

text \<open>
  What follows \<open>result = response.json()\<close> inside the \<open>try\<close>:
  \<open>if result and len(result) > 0 and 'translations' in result[0]\<close>.
\<close>

definition read_translation :: "json \<Rightarrow> string \<Rightarrow> py_exn + json" where
  "read_translation result target_language =
     (if \<not> truthy result then Inl (PyException ''Invalid translation response'')
      else
        (case py_len result of
           Inl e \<Rightarrow> Inl e
         | Inr n \<Rightarrow>
             if \<not> 0 < n then Inl (PyException ''Invalid translation response'')
             else
               (case py_index0 result of
                  Inl e \<Rightarrow> Inl e
                | Inr r0 \<Rightarrow>
                    (case py_contains_str ''translations'' r0 of
                       Inl e \<Rightarrow> Inl e
                     | Inr False \<Rightarrow> Inl (PyException ''Invalid translation response'')
                     | Inr True \<Rightarrow> build_translation r0 target_language))))"

text \<open>
  \<open>translate_text\<close>: the dict returned and the POST requests sent. \<open>post\<close> is what the
  provider answers to a request.
\<close>

definition translate_text ::
  "azure_translator_config \<Rightarrow> translator_service \<Rightarrow> (http_request \<Rightarrow> http_outcome) \<Rightarrow>
     string \<Rightarrow> string \<Rightarrow> json \<times> http_request list" where
  "translate_text cfg svc post txt target_language =
     (if \<not> is_configured cfg
      then (failure (''Azure Translator service is not configured. ''
                     @ ''Please set the required environment variables.''), [])
      else
        (let req = translate_request svc txt target_language
         in (case post req of
               Timeout m \<Rightarrow> (failure ''Translation request timed out. Please try again.'', [req])
             | RequestException m \<Rightarrow> (failure (''Translation service error: '' @ m), [req])
             | OtherException e \<Rightarrow> (failure (''Translation failed: '' @ str_exn e), [req])
             | JsonBody result \<Rightarrow>
                 (case read_translation result target_language of
                    Inr d \<Rightarrow> (d, [req])
                  | Inl e \<Rightarrow> (failure (''Translation failed: '' @ str_exn e), [req])))))"

section \<open>Route handlers (routes/api.py)\<close>

record http_response =
  status :: nat
  body :: json

definition error_response :: "nat \<Rightarrow> string \<Rightarrow> http_response" where
  "error_response code msg = \<lparr>status = code, body = failure msg\<rparr>"

text \<open>
  \<open>translate\<close>: the response and the POST requests sent, or the exception that leaves the
  handler. \<open>result['success']\<close> is one of the two booleans \<open>translate_text\<close> writes.
\<close>

definition translate ::
  "azure_translator_config \<Rightarrow> translator_service \<Rightarrow> (http_request \<Rightarrow> http_outcome) \<Rightarrow>
     json \<Rightarrow> py_exn + (http_response \<times> http_request list)" where
  "translate cfg svc post data =
     (if \<not> truthy data then Inr (error_response 400 ''No data provided'', [])
      else
        (case py_get data ''text'' (JStr []) of
           Inl e \<Rightarrow> Inl e
         | Inr t \<Rightarrow>
        (case py_strip t of
           Inl e \<Rightarrow> Inl e
         | Inr source_text \<Rightarrow>
        (case py_get data ''target_language'' (JStr []) of
           Inl e \<Rightarrow> Inl e
         | Inr l \<Rightarrow>
        (case py_strip l of
           Inl e \<Rightarrow> Inl e
         | Inr target_language \<Rightarrow>
             if source_text = [] then Inr (error_response 400 ''Please enter text to translate'', [])
             else if target_language = []
             then Inr (error_response 400 ''Please select a target language'', [])
             else if 5000 < length source_text
             then Inr (error_response 400 ''Text is too long. Maximum 5000 characters allowed.'', [])
             else
               (case translate_text cfg svc post source_text target_language of
                  (result, sent) \<Rightarrow>
                    (case py_getitem_str result ''success'' of
                       Inl e \<Rightarrow> Inl e
                     | Inr ok \<Rightarrow>
                         if truthy ok then Inr (\<lparr>status = 200, body = result\<rparr>, sent)
                         else Inr (\<lparr>status = 500, body = result\<rparr>, sent))))))))"

section \<open>Stored test results (models.py)\<close>

record datetime =
  year :: int
  month :: int
  day :: int
  hour :: int
  minute :: int
  second :: int
  microsecond :: int

text \<open>Decimal text of a number that is not negative, and zero padding to a width.\<close>

function str_nat :: "int \<Rightarrow> string" where
  "str_nat n =
     (if n < 10 then [char_of (48 + nat n)]
      else str_nat (n div 10) @ [char_of (48 + nat (n mod 10))])"
  by pat_completeness auto
termination
  by (relation "measure nat") auto

declare str_nat.simps [simp del]

definition str_int :: "int \<Rightarrow> string" where
  "str_int i = (if i < 0 then CHR ''-'' # str_nat (- i) else str_nat i)"

definition zfill :: "nat \<Rightarrow> string \<Rightarrow> string" where
  "zfill w s = replicate (w - length s) CHR ''0'' @ s"

text \<open>
  \<open>strftime('%Y-%m-%d %H:%M:%S')\<close>. The year is printed as the C library on Linux prints
  it, without padding: four digits from the year 1000 on.
\<close>

definition strftime_ymd_hms :: "datetime \<Rightarrow> string" where
  "strftime_ymd_hms d =
     str_nat (year d) @ ''-'' @ zfill 2 (str_nat (month d)) @ ''-''
       @ zfill 2 (str_nat (day d)) @ '' '' @ zfill 2 (str_nat (hour d)) @ '':''
       @ zfill 2 (str_nat (minute d)) @ '':'' @ zfill 2 (str_nat (second d))"

text \<open>\<open>strftime("%Y%m%d_%H%M%S")\<close>\<close>

definition strftime_compact :: "datetime \<Rightarrow> string" where
  "strftime_compact d =
     str_nat (year d) @ zfill 2 (str_nat (month d)) @ zfill 2 (str_nat (day d))
       @ ''_'' @ zfill 2 (str_nat (hour d)) @ zfill 2 (str_nat (minute d))
       @ zfill 2 (str_nat (second d))"

definition isoformat :: "datetime \<Rightarrow> string" where
  "isoformat d =
     zfill 4 (str_nat (year d)) @ ''-'' @ zfill 2 (str_nat (month d)) @ ''-''
       @ zfill 2 (str_nat (day d)) @ ''T'' @ zfill 2 (str_nat (hour d)) @ '':''
       @ zfill 2 (str_nat (minute d)) @ '':'' @ zfill 2 (str_nat (second d))
       @ (if microsecond d = 0 then [] else ''.'' @ zfill 6 (str_nat (microsecond d)))"

text \<open>A row of \<open>test_results\<close>, as the ORM loads it: the nullable columns are options.\<close>

record test_result =
  id' :: int
  outcome :: string
  accuracy :: pyfloat
  observation :: "string option"
  tested_by :: "string option"
  text_to_translate :: "string option"
  translated_text :: "string option"
  source_language :: "string option"
  target_language :: "string option"
  session_id :: "string option"
  created_at :: "datetime option"

definition opt_json :: "string option \<Rightarrow> json" where
  "opt_json v = (case v of None \<Rightarrow> JNull | Some s \<Rightarrow> JStr s)"

definition to_dict :: "test_result \<Rightarrow> json" where
  "to_dict r =
     JObj [(''id'', JInt (id' r)),
           (''outcome'', JStr (outcome r)),
           (''accuracy'', JFloat (accuracy r)),
           (''observation'', opt_json (observation r)),
           (''tested_by'', opt_json (tested_by r)),
           (''text_to_translate'', opt_json (text_to_translate r)),
           (''translated_text'', opt_json (translated_text r)),
           (''source_language'', opt_json (source_language r)),
           (''target_language'', opt_json (target_language r)),
           (''session_id'', opt_json (session_id r)),
           (''created_at'', (case created_at r of None \<Rightarrow> JNull | Some d \<Rightarrow> JStr (isoformat d)))]"

section \<open>Saving a test result (routes/api.py)\<close>

text \<open>The keyword arguments \<open>save_test_results\<close> gives the \<open>TestResult\<close> constructor.\<close>

record test_result_args =
  arg_outcome :: json
  arg_accuracy :: pyfloat
  arg_observation :: json
  arg_tested_by :: json
  arg_text_to_translate :: json
  arg_translated_text :: json
  arg_source_language :: json
  arg_target_language :: json
  arg_session_id :: json

definition bind_exn :: "py_exn + 'a \<Rightarrow> ('a \<Rightarrow> py_exn + 'b) \<Rightarrow> py_exn + 'b" where
  "bind_exn m f = (case m of Inl e \<Rightarrow> Inl e | Inr x \<Rightarrow> f x)"

text \<open>
  Lines 126 to 148: build the record, add and commit it, answer with the stored row.
  \<open>uuid4\<close> is the text of the fresh UUID; \<open>db_insert\<close> is the session's add and commit,
  which gives the row as stored or raises.
\<close>

definition store_test_result ::
  "string \<Rightarrow> (test_result_args \<Rightarrow> py_exn + test_result) \<Rightarrow> json \<Rightarrow> pyfloat \<Rightarrow>
     py_exn + http_response" where
  "store_test_result uuid4 db_insert data acc =
     bind_exn (py_get data ''outcome'' JNull) (\<lambda>v_outcome.
     bind_exn (py_get data ''observation'' JNull) (\<lambda>v_observation.
     bind_exn (py_get data ''testedBy'' JNull) (\<lambda>v_tested_by.
     bind_exn (py_get data ''sourceText'' JNull) (\<lambda>v_source_text.
     bind_exn (py_get data ''translatedText'' JNull) (\<lambda>v_translated_text.
     bind_exn (py_get data ''sourceLanguage'' (JStr ''auto'')) (\<lambda>v_source_language.
     bind_exn (py_get data ''targetLanguage'' JNull) (\<lambda>v_target_language.
     bind_exn (py_get data ''sessionId'' (JStr uuid4)) (\<lambda>v_session_id.
     bind_exn (db_insert
        \<lparr>arg_outcome = v_outcome, arg_accuracy = acc, arg_observation = v_observation,
         arg_tested_by = v_tested_by, arg_text_to_translate = v_source_text,
         arg_translated_text = v_translated_text, arg_source_language = v_source_language,
         arg_target_language = v_target_language, arg_session_id = v_session_id\<rparr>) (\<lambda>row.
     Inr \<lparr>status = 200,
          body = JObj [(''success'', JBool True),
                       (''message'', JStr ''Test results saved successfully to database''),
                       (''result_id'', JInt (id' row)),
                       (''data'', to_dict row)]\<rparr>)))))))))"

text \<open>The body of the \<open>try\<close> block of \<open>save_test_results\<close>.\<close>

definition save_test_results_try ::
  "string \<Rightarrow> (test_result_args \<Rightarrow> py_exn + test_result) \<Rightarrow> json \<Rightarrow> py_exn + http_response"
  where
  "save_test_results_try uuid4 db_insert data =
     (if \<not> truthy data then Inr (error_response 400 ''No data provided'')
      else
        (case py_get data ''outcome'' JNull of
           Inl e \<Rightarrow> Inl e
         | Inr v_outcome \<Rightarrow>
             if \<not> truthy v_outcome then Inr (error_response 400 ''Outcome is required'')
             else
               (case py_get data ''accuracy'' JNull of
                  Inl e \<Rightarrow> Inl e
                | Inr a \<Rightarrow>
                    if \<not> truthy a then Inr (error_response 400 ''Accuracy is required'')
                    else
                      (case py_float a of
                         Inl (ValueError m) \<Rightarrow>
                           Inr (error_response 400 ''Accuracy must be a valid number'')
                       | Inl (TypeError m) \<Rightarrow>
                           Inr (error_response 400 ''Accuracy must be a valid number'')
                       | Inl e \<Rightarrow> Inl e
                       | Inr acc \<Rightarrow>
                           if float_lt acc (Finite 0) \<or> float_gt acc (Finite 100)
                           then Inr (error_response 400 ''Accuracy must be between 0 and 100'')
                           else store_test_result uuid4 db_insert data acc))))"

text \<open>\<open>save_test_results\<close>, with its two handlers.\<close>

definition save_test_results ::
  "string \<Rightarrow> (test_result_args \<Rightarrow> py_exn + test_result) \<Rightarrow> json \<Rightarrow> http_response" where
  "save_test_results uuid4 db_insert data =
     (case save_test_results_try uuid4 db_insert data of
        Inr r \<Rightarrow> r
      | Inl (ValueError m) \<Rightarrow> error_response 400 (''Invalid data format: '' @ m)
      | Inl e \<Rightarrow> error_response 500 (''Failed to save test results: '' @ str_exn e))"

section \<open>Listing and exporting (routes/api.py)\<close>

text \<open>
  The table is the list of its rows in the order the backend scans them, which the code
  does not control. \<open>ORDER BY created_at DESC\<close> sorts on that one key; rows with equal keys
  stay in scan order, so every order a backend can give to ties is the sort of some table.
  A missing timestamp sorts lowest, as on SQL Server.
\<close>

definition created_key :: "test_result \<Rightarrow> (int \<times> int \<times> int \<times> int \<times> int \<times> int \<times> int) option"
  where
  "created_key r =
     map_option (\<lambda>d. (year d, month d, day d, hour d, minute d, second d, microsecond d))
       (created_at r)"

fun insert_desc :: "test_result \<Rightarrow> test_result list \<Rightarrow> test_result list" where
  "insert_desc x [] = [x]"
| "insert_desc x (y # ys) =
     (if created_key y < created_key x then x # y # ys else y # insert_desc x ys)"

definition order_by_created_at_desc :: "test_result list \<Rightarrow> test_result list" where
  "order_by_created_at_desc rows = foldl (\<lambda>acc x. insert_desc x acc) [] rows"

text \<open>
  \<open>query.paginate(page=page, per_page=per_page, error_out=False)\<close>: the library caps
  \<open>per_page\<close> at its \<open>max_per_page\<close> when it has one, and with \<open>error_out\<close> off takes page 1
  for a page below 1 and 20 for a \<open>per_page\<close> below 1.
\<close>

definition effective_page :: "int \<Rightarrow> int" where
  "effective_page page = (if page < 1 then 1 else page)"

definition effective_per_page :: "int option \<Rightarrow> int \<Rightarrow> int" where
  "effective_per_page max_per_page per_page =
     (let pp = (case max_per_page of None \<Rightarrow> per_page | Some m \<Rightarrow> min per_page m)
      in if pp < 1 then 20 else pp)"

definition paginate_items :: "int option \<Rightarrow> int \<Rightarrow> int \<Rightarrow> 'a list \<Rightarrow> 'a list" where
  "paginate_items max_per_page page per_page xs =
     take (nat (effective_per_page max_per_page per_page))
       (drop (nat ((effective_page page - 1) * effective_per_page max_per_page per_page)) xs)"

text \<open>The query of \<open>get_test_results\<close>: filter when the parameter is given and not empty.\<close>

definition filtered_query :: "string option \<Rightarrow> test_result list \<Rightarrow> test_result list" where
  "filtered_query outcome_filter table =
     order_by_created_at_desc
       (case outcome_filter of
          None \<Rightarrow> table
        | Some f \<Rightarrow> if f = [] then table else filter (\<lambda>r. outcome r = f) table)"

definition get_test_results_items ::
  "int option \<Rightarrow> int \<Rightarrow> int \<Rightarrow> string option \<Rightarrow> test_result list \<Rightarrow> test_result list" where
  "get_test_results_items max_per_page page per_page outcome_filter table =
     paginate_items max_per_page page per_page (filtered_query outcome_filter table)"

definition page_count :: "int \<Rightarrow> int \<Rightarrow> int" where
  "page_count n pp = (if n = 0 then 0 else (n + pp - 1) div pp)"

definition get_test_results ::
  "int option \<Rightarrow> int \<Rightarrow> int \<Rightarrow> string option \<Rightarrow> test_result list \<Rightarrow> http_response" where
  "get_test_results max_per_page page per_page outcome_filter table =
     (let total' = int (length (filtered_query outcome_filter table));
          pages = page_count total' (effective_per_page max_per_page per_page)
      in \<lparr>status = 200,
          body = JObj
            [(''success'', JBool True),
             (''data'', JArr (map to_dict
                 (get_test_results_items max_per_page page per_page outcome_filter table))),
             (''pagination'', JObj
                [(''page'', JInt page),
                 (''per_page'', JInt per_page),
                 (''total'', JInt total'),
                 (''pages'', JInt pages),
                 (''has_next'', JBool (effective_page page < pages)),
                 (''has_prev'', JBool (1 < effective_page page))])]\<rparr>)"

subsection \<open>Export\<close>

datatype cell = CInt int | CFloat pyfloat | CStr string | CNone

definition opt_cell :: "string option \<Rightarrow> cell" where
  "opt_cell v = (case v of None \<Rightarrow> CNone | Some s \<Rightarrow> CStr s)"

definition export_columns :: "string list" where
  "export_columns =
     [''ID'', ''Text to Translate'', ''Translated Text'', ''Source Language'',
      ''Target Language'', ''Outcome'', ''Observation'', ''Accuracy (%)'', ''Tested By'',
      ''Date Created'', ''Session ID'']"

definition export_row :: "test_result \<Rightarrow> cell list" where
  "export_row r =
     [CInt (id' r),
      opt_cell (text_to_translate r),
      opt_cell (translated_text r),
      opt_cell (source_language r),
      opt_cell (target_language r),
      CStr (outcome r),
      opt_cell (observation r),
      CFloat (accuracy r),
      opt_cell (tested_by r),
      CStr (case created_at r of None \<Rightarrow> [] | Some d \<Rightarrow> strftime_ymd_hms d),
      opt_cell (session_id r)]"

text \<open>\<open>str(cell.value)\<close>; \<open>repr_float\<close> is the text Python prints for a float.\<close>

definition cell_text :: "(pyfloat \<Rightarrow> string) \<Rightarrow> cell \<Rightarrow> string" where
  "cell_text repr_float c =
     (case c of
        CInt i \<Rightarrow> str_int i
      | CFloat f \<Rightarrow> repr_float f
      | CStr s \<Rightarrow> s
      | CNone \<Rightarrow> ''None'')"

text \<open>The loop over one column: the longest text, plus 2, at most 50.\<close>

definition adjusted_width :: "(pyfloat \<Rightarrow> string) \<Rightarrow> cell list \<Rightarrow> nat" where
  "adjusted_width repr_float column =
     min (foldl (\<lambda>max_length c.
                   if max_length < length (cell_text repr_float c)
                   then length (cell_text repr_float c) else max_length) 0 column + 2) 50"

text \<open>
  The frame \<open>pd.DataFrame(data)\<close> is built from: the keys of the dicts in the order they
  are written, and one row per record.
\<close>

record data_frame =
  df_columns :: "string list"
  df_rows :: "cell list list"

definition export_data :: "test_result list \<Rightarrow> data_frame" where
  "export_data results = \<lparr>df_columns = export_columns, df_rows = map export_row results\<rparr>"

text \<open>
  What the handler takes from outside the repository. \<open>env_import\<close> is the exception that
  \<open>import pandas\<close> raises, if any. \<open>env_to_excel\<close> is the part of pandas and openpyxl:
  building the frame, writing it to the sheet, saving the workbook and sending the file;
  it gives the exception that any of them raises, or the columns of the sheet as
  \<open>worksheet.columns\<close> yields them, each the values of its cells from the top.
  \<open>env_repr_float\<close> is the text Python prints for a float, \<open>env_now\<close> the clock.
\<close>

record export_env =
  env_import :: "py_exn option"
  env_to_excel :: "data_frame \<Rightarrow> py_exn + cell list list"
  env_repr_float :: "pyfloat \<Rightarrow> string"
  env_now :: datetime

text \<open>
  An answer is a JSON error with its status, or the file: its download name, the frame
  written to it and the widths set on the columns of its sheet.
\<close>

datatype export_response =
    JsonError nat json
  | Attachment string data_frame "nat list"

text \<open>The two \<open>except\<close> branches, which enclose the whole body.\<close>

definition export_failure :: "py_exn \<Rightarrow> export_response" where
  "export_failure e =
     (case e of
        ImportError m \<Rightarrow>
          JsonError 500
            (JObj [(''error'',
                    JStr ''Pandas and openpyxl libraries are required for Excel export'')])
      | _ \<Rightarrow> JsonError 500 (JObj [(''error'', JStr (str_exn e))]))"

text \<open>
  \<open>query\<close> is what \<open>TestResult.query\<close> reads: the table, or the exception of the database.
  The order of the source is kept, but for the exceptions after the loop over the columns
  (saving, sending), which \<open>env_to_excel\<close> gives with those before it: the loop has no
  effect but the widths, and its own \<open>try\<close> guards a \<open>str\<close> that does not raise on the
  values a cell holds here.
\<close>

definition export_test_results ::
  "export_env \<Rightarrow> py_exn + test_result list \<Rightarrow> export_response" where
  "export_test_results env query =
     (case env_import env of
        Some e \<Rightarrow> export_failure e
      | None \<Rightarrow>
          (case query of
             Inl e \<Rightarrow> export_failure e
           | Inr table \<Rightarrow>
               (let results = order_by_created_at_desc table
                in if results = []
                   then JsonError 404 (JObj [(''error'', JStr ''No test results to export'')])
                   else
                     (case env_to_excel env (export_data results) of
                        Inl e \<Rightarrow> export_failure e
                      | Inr sheet_columns \<Rightarrow>
                          Attachment (''test_results_'' @ strftime_compact (env_now env) @ ''.xlsx'')
                            (export_data results)
                            (map (adjusted_width (env_repr_float env)) sheet_columns)))))"

section \<open>Notions used to state the properties\<close>

text \<open>A float that is a number between 0 and 100.\<close>

definition in_range_0_100 :: "pyfloat \<Rightarrow> bool" where
  "in_range_0_100 f = (case f of Finite r \<Rightarrow> 0 \<le> r \<and> r \<le> 100 | _ \<Rightarrow> False)"

text \<open>
  A payload \<open>validate_translation_request\<close> can read: a falsy value, or an object whose
  \<open>text\<close> and \<open>target_language\<close>, where present, are strings.
\<close>

definition str_or_absent :: "(string \<times> json) list \<Rightarrow> string \<Rightarrow> bool" where
  "str_or_absent kvs k = (case map_of kvs k of None \<Rightarrow> True | Some v \<Rightarrow> is_str v)"

definition readable_translation_payload :: "json \<Rightarrow> bool" where
  "readable_translation_payload data =
     (\<not> truthy data \<or>
      (case data of
         JObj kvs \<Rightarrow> str_or_absent kvs ''text'' \<and> str_or_absent kvs ''target_language''
       | _ \<Rightarrow> False))"

text \<open>A field after trimming, empty when absent.\<close>

definition trimmed :: "json \<Rightarrow> string \<Rightarrow> string" where
  "trimmed data k =
     (case data of
        JObj kvs \<Rightarrow> (case map_of kvs k of Some (JStr s) \<Rightarrow> strip s | _ \<Rightarrow> [])
      | _ \<Rightarrow> [])"

text \<open>
  The message of the first check that fails, in the order the specification lists them:
  payload absent, trimmed text empty, trimmed target language empty, trimmed text too long.
\<close>

definition first_failing_check :: "json \<Rightarrow> string option" where
  "first_failing_check data =
     (if \<not> truthy data then Some ''No data provided''
      else if trimmed data ''text'' = [] then Some ''Please enter text to translate''
      else if trimmed data ''target_language'' = [] then Some ''Please select a target language''
      else if 5000 < length (trimmed data ''text'')
      then Some ''Text is too long. Maximum 5000 characters allowed.''
      else None)"

text \<open>
  An environment for the closed examples: a backend that stores the record under a given id
  at a given time, a configuration without credentials, a provider that cannot be reached.
\<close>

definition col :: "json \<Rightarrow> string option" where
  "col v = (case v of JStr s \<Rightarrow> Some s | _ \<Rightarrow> None)"

definition insert_row :: "int \<Rightarrow> datetime \<Rightarrow> test_result_args \<Rightarrow> py_exn + test_result" where
  "insert_row new_id now a =
     Inr \<lparr>id' = new_id, outcome = str_of (arg_outcome a), accuracy = arg_accuracy a,
          observation = col (arg_observation a), tested_by = col (arg_tested_by a),
          text_to_translate = col (arg_text_to_translate a),
          translated_text = col (arg_translated_text a),
          source_language = col (arg_source_language a),
          target_language = col (arg_target_language a),
          session_id = col (arg_session_id a), created_at = Some now\<rparr>"

definition no_credentials :: azure_translator_config where
  "no_credentials =
     \<lparr>TRANSLATOR_KEY = None, TRANSLATOR_ENDPOINT = None, TRANSLATOR_REGION = None\<rparr>"

definition provider_down :: "http_request \<Rightarrow> http_outcome" where
  "provider_down req = RequestException ''connection refused''"

definition new_year :: datetime where
  "new_year = \<lparr>year = 2025, month = 1, day = 1, hour = 0, minute = 0, second = 0, microsecond = 0\<rparr>"

text \<open>
  Two orders on rows: newest first, and the order the specification names, newest first
  with equal timestamps by descending id. \<open>stored\<close> is a row for the examples.
\<close>

definition newest_first :: "test_result \<Rightarrow> test_result \<Rightarrow> bool" where
  "newest_first a b = (created_key b \<le> created_key a)"

definition newest_first_then_id :: "test_result \<Rightarrow> test_result \<Rightarrow> bool" where
  "newest_first_then_id a b =
     (created_key b < created_key a \<or> (created_key a = created_key b \<and> id' b < id' a))"

definition stored :: "int \<Rightarrow> string \<Rightarrow> datetime \<Rightarrow> test_result" where
  "stored i oc t =
     \<lparr>id' = i, outcome = oc, accuracy = Finite 90, observation = None, tested_by = None,
      text_to_translate = None, translated_text = None, source_language = Some ''auto'',
      target_language = None, session_id = None, created_at = Some t\<rparr>"

definition mid_year :: datetime where
  "mid_year = \<lparr>year = 2025, month = 6, day = 1, hour = 0, minute = 0, second = 0, microsecond = 0\<rparr>"

text \<open>A listing as the provider sends it, for the examples.\<close>

definition two_languages :: json where
  "two_languages =
     JObj [(''translation'',
            JObj [(''fr'', JObj [(''name'', JStr ''French''), (''dir'', JStr ''ltr'')]),
                  (''de'', JObj [(''name'', JStr ''German'')]),
                  (''xx'', JObj [])])]"




text \<open>
  The message for missing credentials, the four kinds of failure with the messages that
  belong to each, and the shape the specification expects of the provider's answer: an
  array, not empty, whose first element holds an array under \<open>translations\<close>.
\<close>

definition not_configured_message :: string where
  "not_configured_message =
     ''Azure Translator service is not configured. Please set the required environment variables.''"

datatype failure_category = ConfigError | TimeoutError | TransportError | TranslationFailed

definition classify :: "string \<Rightarrow> failure_category option" where
  "classify msg =
     (if msg = not_configured_message then Some ConfigError
      else if msg = ''Translation request timed out. Please try again.'' then Some TimeoutError
      else if prefix ''Translation service error: '' msg then Some TransportError
      else if prefix ''Translation failed: '' msg then Some TranslationFailed
      else None)"

definition expected_shape :: "json \<Rightarrow> bool" where
  "expected_shape j =
     (case j of
        JArr (JObj kvs # rest) \<Rightarrow>
          (case map_of kvs ''translations'' of Some (JArr ts) \<Rightarrow> True | _ \<Rightarrow> False)
      | _ \<Rightarrow> False)"

definition with_credentials :: azure_translator_config where
  "with_credentials =
     \<lparr>TRANSLATOR_KEY = Some ''0123abcd'',
      TRANSLATOR_ENDPOINT = Some ''https://api.cognitive.microsofttranslator.com'',
      TRANSLATOR_REGION = Some ''westeurope''\<rparr>"

text \<open>
  A timestamp with a four-digit year and fields in their ranges; the text form
  \<open>YYYY-MM-DD HH:MM:SS\<close>; the six numbers such a text spells; and a text that shows a
  stored timestamp: empty when there is none, else of that form and spelling its fields.
\<close>

definition plausible :: "datetime \<Rightarrow> bool" where
  "plausible d =
     (1000 \<le> year d \<and> year d \<le> 9999 \<and> 1 \<le> month d \<and> month d \<le> 12
      \<and> 1 \<le> day d \<and> day d \<le> 31 \<and> 0 \<le> hour d \<and> hour d \<le> 23
      \<and> 0 \<le> minute d \<and> minute d \<le> 59 \<and> 0 \<le> second d \<and> second d \<le> 59)"

definition is_ymd_hms :: "string \<Rightarrow> bool" where
  "is_ymd_hms s =
     (length s = 19
      \<and> list_all is_digit (take 4 s) \<and> s ! 4 = CHR ''-''
      \<and> list_all is_digit (take 2 (drop 5 s)) \<and> s ! 7 = CHR ''-''
      \<and> list_all is_digit (take 2 (drop 8 s)) \<and> s ! 10 = CHR '' ''
      \<and> list_all is_digit (take 2 (drop 11 s)) \<and> s ! 13 = CHR '':''
      \<and> list_all is_digit (take 2 (drop 14 s)) \<and> s ! 16 = CHR '':''
      \<and> list_all is_digit (take 2 (drop 17 s)))"

definition digits_value :: "string \<Rightarrow> int" where
  "digits_value s = int_of_digits (map digit_val s)"

definition read_ymd_hms :: "string \<Rightarrow> int \<times> int \<times> int \<times> int \<times> int \<times> int" where
  "read_ymd_hms s =
     (digits_value (take 4 s), digits_value (take 2 (drop 5 s)),
      digits_value (take 2 (drop 8 s)), digits_value (take 2 (drop 11 s)),
      digits_value (take 2 (drop 14 s)), digits_value (take 2 (drop 17 s)))"

definition shows_timestamp :: "string \<Rightarrow> datetime option \<Rightarrow> bool" where
  "shows_timestamp s t =
     (case t of
        None \<Rightarrow> s = []
      | Some d \<Rightarrow>
          plausible d \<longrightarrow>
            is_ymd_hms s
            \<and> read_ymd_hms s = (year d, month d, day d, hour d, minute d, second d))"

text \<open>
  A row of the exported table against the stored record: 11 cells, each column holding
  its field, the accuracy as the stored float, the date as a text showing the timestamp.
\<close>

definition row_of :: "cell list \<Rightarrow> test_result \<Rightarrow> bool" where
  "row_of row r =
     (length row = 11
      \<and> row ! 0 = CInt (id' r)
      \<and> row ! 1 = opt_cell (text_to_translate r)
      \<and> row ! 2 = opt_cell (translated_text r)
      \<and> row ! 3 = opt_cell (source_language r)
      \<and> row ! 4 = opt_cell (target_language r)
      \<and> row ! 5 = CStr (outcome r)
      \<and> row ! 6 = opt_cell (observation r)
      \<and> row ! 7 = CFloat (accuracy r)
      \<and> row ! 8 = opt_cell (tested_by r)
      \<and> (case row ! 9 of CStr s \<Rightarrow> shows_timestamp s (created_at r) | _ \<Rightarrow> False)
      \<and> row ! 10 = opt_cell (session_id r))"

text \<open>The width the specification gives a column: its longest text plus 2, at most 50.\<close>

definition capped_width :: "(pyfloat \<Rightarrow> string) \<Rightarrow> nat \<Rightarrow> cell list \<Rightarrow> bool" where
  "capped_width repr_float w column =
     (w = min (Max (insert 0 ((\<lambda>c. length (cell_text repr_float c)) ` set column)) + 2) 50)"

definition no_data :: export_response where
  "no_data = JsonError 404 (JObj [(''error'', JStr ''No test results to export'')])"

text \<open>
  The libraries for the examples. openpyxl keeps the first 32767 characters of a text
  and refuses it when they hold a control character other than tab, line feed and
  carriage return; the message is the one of its version 3.1. pandas writes the column
  names as the first row (\<open>index=False\<close>), an empty text for a missing value and \<open>inf\<close>
  for an infinite one.
\<close>

definition illegal_character :: "char \<Rightarrow> bool" where
  "illegal_character c = ((of_char c :: nat) < 32 \<and> (of_char c :: nat) \<notin> {9, 10, 13})"

definition first_32767 :: "string \<Rightarrow> string" where
  "first_32767 s = (if int (length s) \<le> 32767 then s else take 32767 s)"

definition check_string :: "cell \<Rightarrow> py_exn option" where
  "check_string c =
     (case c of
        CStr s \<Rightarrow>
          if list_ex illegal_character (first_32767 s)
          then Some (PyException (first_32767 s @ '' cannot be used in worksheets.''))
          else None
      | _ \<Rightarrow> None)"

definition written_value :: "cell \<Rightarrow> cell" where
  "written_value c =
     (case c of
        CNone \<Rightarrow> CStr []
      | CFloat NaN \<Rightarrow> CStr []
      | CFloat PosInf \<Rightarrow> CStr ''inf''
      | CFloat NegInf \<Rightarrow> CStr ''-inf''
      | _ \<Rightarrow> c)"

definition to_excel :: "data_frame \<Rightarrow> py_exn + cell list list" where
  "to_excel frame =
     (let cells = map CStr (df_columns frame) # map (map written_value) (df_rows frame)
      in case List.map_filter check_string (concat cells) of
           e # es \<Rightarrow> Inl e
         | [] \<Rightarrow> Inr (transpose cells))"

definition libraries :: export_env where
  "libraries =
     \<lparr>env_import = None, env_to_excel = to_excel,
      env_repr_float = (\<lambda>f. ''90.0''), env_now = new_year\<rparr>"

definition libraries_missing :: export_env where
  "libraries_missing =
     \<lparr>env_import = Some (ImportError (''No module named '' @ [CHR 0x27] @ ''pandas'' @ [CHR 0x27])),
      env_to_excel = to_excel, env_repr_float = (\<lambda>f. ''90.0''), env_now = new_year\<rparr>"

section \<open>Properties of the validators\<close>

lemma float_of_string_zero: "float_of_string ''0'' = Inr (Finite 0)"
  by code_simp

lemma float_of_string_nan: "float_of_string ''nan'' = Inr NaN"
  by code_simp

lemma map_of_nonempty: "map_of kvs k = Some v \<Longrightarrow> kvs \<noteq> []"
  by auto

text \<open>
  C10. With an outcome given, the numbers \<open>0\<close> and \<open>0.0\<close> as accuracy are taken for a missing
  value and rejected with \<open>Accuracy is required\<close>, while the string \<open>"0"\<close> is accepted with
  the accuracy \<open>0.0\<close>: whether zero is accepted depends on the JSON type it arrives in.
\<close>

theorem zero_accuracy_number_rejected_string_accepted:
  "map_of kvs ''outcome'' = Some oc \<and> truthy oc \<longrightarrow>
     (map_of kvs ''accuracy'' = Some (JInt 0) \<longrightarrow>
        validate_test_result_data (JObj kvs) = Inr (False, Some ''Accuracy is required'', None))
   \<and> (map_of kvs ''accuracy'' = Some (JFloat (Finite 0)) \<longrightarrow>
        validate_test_result_data (JObj kvs) = Inr (False, Some ''Accuracy is required'', None))
   \<and> (map_of kvs ''accuracy'' = Some (JStr ''0'') \<longrightarrow>
        validate_test_result_data (JObj kvs) = Inr (True, None, Some (Finite 0)))"
  using float_of_string_zero
  by (auto simp: validate_test_result_data_def py_get_def py_float_def float_gt_def
      dest: map_of_nonempty)

theorem zero_accuracy_witness:
  "validate_test_result_data (JObj [(''outcome'', JStr ''Success''), (''accuracy'', JInt 0)])
     = Inr (False, Some ''Accuracy is required'', None)
   \<and> validate_test_result_data
        (JObj [(''outcome'', JStr ''Success''), (''accuracy'', JFloat (Finite 0))])
     = Inr (False, Some ''Accuracy is required'', None)
   \<and> validate_test_result_data (JObj [(''outcome'', JStr ''Success''), (''accuracy'', JStr ''0'')])
     = Inr (True, None, Some (Finite 0))"
  using zero_accuracy_number_rejected_string_accepted
      [of "[(''outcome'', JStr ''Success''), (''accuracy'', JInt 0)]" "JStr ''Success''"]
    zero_accuracy_number_rejected_string_accepted
      [of "[(''outcome'', JStr ''Success''), (''accuracy'', JFloat (Finite 0))]" "JStr ''Success''"]
    zero_accuracy_number_rejected_string_accepted
      [of "[(''outcome'', JStr ''Success''), (''accuracy'', JStr ''0'')]" "JStr ''Success''"]
  by simp

text \<open>
  C2, at the input that breaks it. The string \<open>"nan"\<close> parses, to a float that is not a
  number; both comparisons of the range check are false on it, so the payload is accepted
  and NaN is handed back as the accuracy.
\<close>

theorem nan_accuracy_accepted:
  "validate_test_result_data (JObj [(''outcome'', JStr ''Success''), (''accuracy'', JStr ''nan'')])
     = Inr (True, None, Some NaN) \<and> \<not> in_range_0_100 NaN"
  using float_of_string_nan
  by (simp add: validate_test_result_data_def py_get_def py_float_def float_gt_def
      in_range_0_100_def)

text \<open>NaN is the only accepted accuracy outside the range.\<close>

lemma accepted_accuracy_range:
  "validate_test_result_data data = Inr (True, m, Some a) \<Longrightarrow> a = NaN \<or> in_range_0_100 a"
  by (cases a) (auto simp: validate_test_result_data_def in_range_0_100_def float_gt_def
      split: if_splits sum.splits py_exn.splits)

lemma strip_Nil [simp]: "strip [] = []"
  by (simp add: strip_def)

lemma unreadable_payload_raises:
  "\<not> readable_translation_payload data \<Longrightarrow>
     \<exists>m. validate_translation_request data = Inl (AttributeError m)"
  by (cases data)
     (auto simp: readable_translation_payload_def validate_translation_request_def py_get_def
        py_strip_def str_or_absent_def is_str_def no_attribute_def
        split: option.splits json.splits)

lemma readable_payload_returns:
  "readable_translation_payload data \<Longrightarrow>
     validate_translation_request data =
       Inr (case first_failing_check data of Some m \<Rightarrow> (False, Some m) | None \<Rightarrow> (True, None))"
  by (cases data)
     (auto simp: readable_translation_payload_def validate_translation_request_def
        first_failing_check_def trimmed_def py_get_def py_strip_def str_or_absent_def is_str_def
        split: option.splits json.splits)

text \<open>
  C3, amended. On every payload it can read, \<open>validate_translation_request\<close> returns the
  message of the first failing check in the fixed order, or success when none fails. On
  every other payload, a value that is not an object or a field that is not a string, it
  raises \<open>AttributeError\<close> and returns nothing.
\<close>

theorem translation_request_first_failing_check:
  "(readable_translation_payload data \<longrightarrow>
      validate_translation_request data =
        Inr (case first_failing_check data of
               Some m \<Rightarrow> (False, Some m)
             | None \<Rightarrow> (True, None)))
   \<and> (\<not> readable_translation_payload data \<longrightarrow>
      (\<exists>m. validate_translation_request data = Inl (AttributeError m)))"
  using readable_payload_returns unreadable_payload_raises by blast

theorem translation_request_witness:
  "readable_translation_payload (JObj [(''text'', JStr '' hi ''), (''target_language'', JStr '' '')])
   \<and> validate_translation_request (JObj [(''text'', JStr '' hi ''), (''target_language'', JStr '' '')])
       = Inr (False, Some ''Please select a target language'')
   \<and> \<not> readable_translation_payload (JObj [(''text'', JInt 5)])
   \<and> (\<exists>m. validate_translation_request (JObj [(''text'', JInt 5)]) = Inl (AttributeError m))"
proof -
  have r: "readable_translation_payload
             (JObj [(''text'', JStr '' hi ''), (''target_language'', JStr '' '')])"
    by (simp add: readable_translation_payload_def str_or_absent_def is_str_def)
  have f: "first_failing_check (JObj [(''text'', JStr '' hi ''), (''target_language'', JStr '' '')])
             = Some ''Please select a target language''"
    by (simp add: first_failing_check_def trimmed_def strip_def py_isspace_def)
  have u: "\<not> readable_translation_payload (JObj [(''text'', JInt 5)])"
    by (simp add: readable_translation_payload_def str_or_absent_def is_str_def)
  from translation_request_first_failing_check
         [of "JObj [(''text'', JStr '' hi ''), (''target_language'', JStr '' '')]"] r
  have 1: "validate_translation_request
             (JObj [(''text'', JStr '' hi ''), (''target_language'', JStr '' '')])
           = Inr (case first_failing_check
                         (JObj [(''text'', JStr '' hi ''), (''target_language'', JStr '' '')]) of
                    Some m \<Rightarrow> (False, Some m)
                  | None \<Rightarrow> (True, None))"
    by blast
  from translation_request_first_failing_check [of "JObj [(''text'', JInt 5)]"] u
  have 2: "\<exists>m. validate_translation_request (JObj [(''text'', JInt 5)]) = Inl (AttributeError m)"
    by blast
  from r 1 f u 2 show ?thesis by simp
qed

text \<open>
  C3 as stated fails: both fields are trimmed before any check is made, so a payload with
  an empty text and a number as target language raises instead of reporting the empty text.
\<close>

theorem non_string_target_raises_before_text_check:
  "validate_translation_request (JObj [(''text'', JStr []), (''target_language'', JInt 5)])
     = Inl (no_attribute (JInt 5) ''strip'')
   \<and> first_failing_check (JObj [(''text'', JStr []), (''target_language'', JInt 5)])
     = Some ''Please enter text to translate''"
  by (simp add: validate_translation_request_def py_get_def py_strip_def first_failing_check_def
      trimmed_def)

section \<open>The route handlers against the validators\<close>

lemma build_translation_Inr:
  "build_translation r0 l = Inr d \<Longrightarrow>
     \<exists>a b. d = JObj [(''success'', JBool True), (''translated_text'', a),
                     (''source_language'', b), (''target_language'', JStr l)]"
  by (auto simp: build_translation_def split: sum.splits)

lemma read_translation_Inr:
  "read_translation j l = Inr d \<Longrightarrow>
     \<exists>a b. d = JObj [(''success'', JBool True), (''translated_text'', a),
                     (''source_language'', b), (''target_language'', JStr l)]"
  by (auto simp: read_translation_def split: sum.splits if_splits bool.splits
      dest: build_translation_Inr)

lemma translate_text_shape:
  "(\<exists>m. fst (translate_text cfg svc post t l) = failure m)
   \<or> (\<exists>a b. fst (translate_text cfg svc post t l) =
          JObj [(''success'', JBool True), (''translated_text'', a),
                (''source_language'', b), (''target_language'', JStr l)])"
  by (auto simp: translate_text_def Let_def split: http_outcome.splits sum.splits
      dest: read_translation_Inr)

lemma translate_text_success_field:
  "\<exists>b. py_getitem_str (fst (translate_text cfg svc post t l)) ''success'' = Inr (JBool b)"
  using translate_text_shape [of cfg svc post t l]
  by (auto simp: py_getitem_str_def failure_def)

lemma validate_translation_request_cases:
  "(\<exists>e. validate_translation_request data = Inl e)
   \<or> (\<exists>m. validate_translation_request data = Inr (False, Some m))
   \<or> validate_translation_request data = Inr (True, None)"
  by (auto simp: validate_translation_request_def split: sum.splits)

lemma validate_test_result_data_cases:
  "(\<exists>e. validate_test_result_data data = Inl e)
   \<or> (\<exists>m. validate_test_result_data data = Inr (False, Some m, None))
   \<or> (\<exists>a. validate_test_result_data data = Inr (True, None, Some a))"
  by (auto simp: validate_test_result_data_def split: sum.splits py_exn.splits)

lemma validate_test_result_data_raises:
  "validate_test_result_data data = Inl e \<Longrightarrow>
     (\<exists>m. e = AttributeError m) \<or> (\<exists>m. e = OverflowError m)"
  by (auto simp: validate_test_result_data_def py_get_def no_attribute_def py_float_def
      float_of_int_def float_of_string_def Let_def
      split: sum.splits py_exn.splits if_splits json.splits option.splits prod.splits)

lemma translate_raises:
  "validate_translation_request data = Inl e \<Longrightarrow> translate cfg svc post data = Inl e"
  by (auto simp: validate_translation_request_def translate_def split: sum.splits if_splits)

lemma translate_rejects:
  "validate_translation_request data = Inr (False, Some m) \<Longrightarrow>
     translate cfg svc post data = Inr (error_response 400 m, [])"
  by (auto simp: validate_translation_request_def translate_def split: sum.splits if_splits)

lemma accepted_fields:
  assumes "validate_translation_request data = Inr (True, None)"
  shows "\<exists>t l. py_get data ''text'' (JStr []) = Inr t
           \<and> py_strip t = Inr (trimmed data ''text'')
           \<and> py_get data ''target_language'' (JStr []) = Inr l
           \<and> py_strip l = Inr (trimmed data ''target_language'')
           \<and> truthy data
           \<and> trimmed data ''text'' \<noteq> []
           \<and> trimmed data ''target_language'' \<noteq> []
           \<and> \<not> 5000 < length (trimmed data ''text'')"
proof -
  from assms have tr: "truthy data"
    by (auto simp: validate_translation_request_def split: if_splits)
  from assms tr obtain t where t: "py_get data ''text'' (JStr []) = Inr t"
    by (cases "py_get data ''text'' (JStr [])") (auto simp: validate_translation_request_def)
  from assms tr t obtain st where st: "py_strip t = Inr st"
    by (cases "py_strip t") (auto simp: validate_translation_request_def)
  from assms tr t st obtain l where l: "py_get data ''target_language'' (JStr []) = Inr l"
    by (cases "py_get data ''target_language'' (JStr [])")
       (auto simp: validate_translation_request_def)
  from assms tr t st l obtain sl where sl: "py_strip l = Inr sl"
    by (cases "py_strip l") (auto simp: validate_translation_request_def)
  from assms tr t st l sl have c: "st \<noteq> []" "sl \<noteq> []" "\<not> 5000 < length st"
    by (auto simp: validate_translation_request_def split: if_splits)
  from t st have 1: "st = trimmed data ''text''"
    by (cases data; cases t)
       (auto simp: py_get_def py_strip_def trimmed_def split: option.splits)
  from l sl have 2: "sl = trimmed data ''target_language''"
    by (cases data; cases l)
       (auto simp: py_get_def py_strip_def trimmed_def split: option.splits)
  show ?thesis
    using tr t st l sl c 1 2 by auto
qed

lemma translate_accepts:
  assumes "validate_translation_request data = Inr (True, None)"
  shows "\<exists>r. translate cfg svc post data =
             Inr (r, snd (translate_text cfg svc post (trimmed data ''text'')
                            (trimmed data ''target_language'')))
           \<and> body r = fst (translate_text cfg svc post (trimmed data ''text'')
                            (trimmed data ''target_language''))
           \<and> (status r = 200 \<or> status r = 500)"
proof -
  obtain b where b: "py_getitem_str (fst (translate_text cfg svc post (trimmed data ''text'')
      (trimmed data ''target_language''))) ''success'' = Inr (JBool b)"
    using translate_text_success_field by blast
  from accepted_fields [OF assms] obtain t l where f:
    "py_get data ''text'' (JStr []) = Inr t" "py_strip t = Inr (trimmed data ''text'')"
    "py_get data ''target_language'' (JStr []) = Inr l"
    "py_strip l = Inr (trimmed data ''target_language'')" "truthy data"
    "trimmed data ''text'' \<noteq> []" "trimmed data ''target_language'' \<noteq> []"
    "\<not> 5000 < length (trimmed data ''text'')"
    by blast
  show ?thesis
    using b f
    by (cases "translate_text cfg svc post (trimmed data ''text'')
                 (trimmed data ''target_language'')")
       (simp add: translate_def)
qed

lemma save_test_results_try_eq:
  "save_test_results_try u ins data =
     (case validate_test_result_data data of
        Inl e \<Rightarrow> Inl e
      | Inr (ok, m, a) \<Rightarrow>
          if ok then store_test_result u ins data (the a) else Inr (error_response 400 (the m)))"
  by (simp add: save_test_results_try_def validate_test_result_data_def
      split: sum.split py_exn.split)

lemma save_raises:
  assumes "validate_test_result_data data = Inl e"
  shows "save_test_results u ins data =
           error_response 500 (''Failed to save test results: '' @ str_exn e)"
  using validate_test_result_data_raises [OF assms] assms
  by (auto simp: save_test_results_def save_test_results_try_eq)

lemma save_rejects:
  "validate_test_result_data data = Inr (False, Some m, None) \<Longrightarrow>
     save_test_results u ins data = error_response 400 m"
  by (simp add: save_test_results_def save_test_results_try_eq)

lemma save_accepts:
  "validate_test_result_data data = Inr (True, None, Some a) \<Longrightarrow>
     save_test_results_try u ins data = store_test_result u ins data a"
  by (simp add: save_test_results_try_eq)

lemma save_try_raises:
  "validate_test_result_data data = Inl e \<Longrightarrow> save_test_results_try u ins data = Inl e"
  by (simp add: save_test_results_try_eq)

lemma save_try_rejects:
  "validate_test_result_data data = Inr (False, Some m, None) \<Longrightarrow>
     save_test_results_try u ins data = Inr (error_response 400 m)"
  by (simp add: save_test_results_try_eq)

text \<open>
  C9. The validation written out in the two handlers is the validators' own: on every
  payload each pair makes the same decision. Where the validator raises, the lines of the
  handler raise the same exception; where it rejects, the handler answers 400 with the
  same message; where it accepts, \<open>translate\<close> goes on to translate the trimmed fields and
  \<open>save_test_results\<close> to store the record with the same accuracy. A validator does one of
  the three on every payload.
\<close>

theorem routes_agree_with_validators:
  "(validate_translation_request data = Inl e \<longrightarrow> translate cfg svc post data = Inl e)
   \<and> (validate_translation_request data = Inr (False, Some m) \<longrightarrow>
        translate cfg svc post data = Inr (error_response 400 m, []))
   \<and> (validate_translation_request data = Inr (True, None) \<longrightarrow>
        (\<exists>r. translate cfg svc post data =
               Inr (r, snd (translate_text cfg svc post (trimmed data ''text'')
                              (trimmed data ''target_language'')))
             \<and> body r = fst (translate_text cfg svc post (trimmed data ''text'')
                              (trimmed data ''target_language''))
             \<and> (status r = 200 \<or> status r = 500)))
   \<and> ((\<exists>x. validate_translation_request data = Inl x)
        \<or> (\<exists>x. validate_translation_request data = Inr (False, Some x))
        \<or> validate_translation_request data = Inr (True, None))
   \<and> (validate_test_result_data data = Inl e' \<longrightarrow>
        save_test_results_try u ins data = Inl e')
   \<and> (validate_test_result_data data = Inr (False, Some m', None) \<longrightarrow>
        save_test_results_try u ins data = Inr (error_response 400 m'))
   \<and> (validate_test_result_data data = Inr (True, None, Some a) \<longrightarrow>
        save_test_results_try u ins data = store_test_result u ins data a)
   \<and> ((\<exists>x. validate_test_result_data data = Inl x)
        \<or> (\<exists>x. validate_test_result_data data = Inr (False, Some x, None))
        \<or> (\<exists>x. validate_test_result_data data = Inr (True, None, Some x)))"
proof -
  have 1: "validate_translation_request data = Inl e \<longrightarrow> translate cfg svc post data = Inl e"
    by (rule impI) (rule translate_raises)
  have 2: "validate_translation_request data = Inr (False, Some m) \<longrightarrow>
        translate cfg svc post data = Inr (error_response 400 m, [])"
    by (rule impI) (rule translate_rejects)
  have 3: "validate_translation_request data = Inr (True, None) \<longrightarrow>
        (\<exists>r. translate cfg svc post data =
               Inr (r, snd (translate_text cfg svc post (trimmed data ''text'')
                              (trimmed data ''target_language'')))
             \<and> body r = fst (translate_text cfg svc post (trimmed data ''text'')
                              (trimmed data ''target_language''))
             \<and> (status r = 200 \<or> status r = 500))"
    by (rule impI) (rule translate_accepts)
  have 4: "validate_test_result_data data = Inl e' \<longrightarrow>
        save_test_results_try u ins data = Inl e'"
    by (rule impI) (rule save_try_raises)
  have 5: "validate_test_result_data data = Inr (False, Some m', None) \<longrightarrow>
        save_test_results_try u ins data = Inr (error_response 400 m')"
    by (rule impI) (rule save_try_rejects)
  have 6: "validate_test_result_data data = Inr (True, None, Some a) \<longrightarrow>
        save_test_results_try u ins data = store_test_result u ins data a"
    by (rule impI) (rule save_accepts)
  show ?thesis
    by (intro conjI 1 2 3 4 5 6 validate_translation_request_cases
        validate_test_result_data_cases)
qed

lemma float_of_string_abc: "float_of_string ''abc'' = Inl (ValueError (''could not convert string to float: '' @ ''abc''))"
  by code_simp

lemma float_of_string_95_5: "float_of_string ''95.5'' = Inr (Finite (191 / 2))"
  by code_simp

lemma float_of_int_huge: "float_of_int (10 ^ 400) = Inl (OverflowError ''int too large to convert to float'')"
  by (simp add: float_of_int_def)

theorem routes_agree_witness:
  "translate no_credentials (init_service no_credentials) provider_down
         (JObj [(''text'', JInt 5), (''target_language'', JStr ''fr'')])
     = Inl (no_attribute (JInt 5) ''strip'')
   \<and> translate no_credentials (init_service no_credentials) provider_down
         (JObj [(''text'', JStr '' ''), (''target_language'', JStr ''fr'')])
     = Inr (error_response 400 ''Please enter text to translate'', [])
   \<and> (\<exists>r. translate no_credentials (init_service no_credentials) provider_down
              (JObj [(''text'', JStr '' Hello ''), (''target_language'', JStr ''fr'')])
            = Inr (r, snd (translate_text no_credentials (init_service no_credentials)
                             provider_down ''Hello'' ''fr''))
          \<and> body r = fst (translate_text no_credentials (init_service no_credentials)
                             provider_down ''Hello'' ''fr'')
          \<and> (status r = 200 \<or> status r = 500))
   \<and> save_test_results_try ''7f9c'' (insert_row 1 new_year)
         (JObj [(''outcome'', JStr ''Success''), (''accuracy'', JInt (10 ^ 400))])
     = Inl (OverflowError ''int too large to convert to float'')
   \<and> save_test_results_try ''7f9c'' (insert_row 1 new_year)
         (JObj [(''outcome'', JStr ''Success''), (''accuracy'', JStr ''abc'')])
     = Inr (error_response 400 ''Accuracy must be a valid number'')
   \<and> save_test_results_try ''7f9c'' (insert_row 1 new_year)
         (JObj [(''outcome'', JStr ''Success''), (''accuracy'', JStr ''95.5'')])
     = store_test_result ''7f9c'' (insert_row 1 new_year)
         (JObj [(''outcome'', JStr ''Success''), (''accuracy'', JStr ''95.5'')]) (Finite (191 / 2))"
proof -
  let ?d1 = "JObj [(''text'', JInt 5), (''target_language'', JStr ''fr'')]"
  let ?d2 = "JObj [(''text'', JStr '' ''), (''target_language'', JStr ''fr'')]"
  let ?d3 = "JObj [(''text'', JStr '' Hello ''), (''target_language'', JStr ''fr'')]"
  let ?d4 = "JObj [(''outcome'', JStr ''Success''), (''accuracy'', JStr ''abc'')]"
  let ?d5 = "JObj [(''outcome'', JStr ''Success''), (''accuracy'', JStr ''95.5'')]"
  let ?d6 = "JObj [(''outcome'', JStr ''Success''), (''accuracy'', JInt (10 ^ 400))]"
  have v1: "validate_translation_request ?d1 = Inl (no_attribute (JInt 5) ''strip'')"
    by (simp add: validate_translation_request_def py_get_def py_strip_def)
  have v2: "validate_translation_request ?d2 = Inr (False, Some ''Please enter text to translate'')"
    by (simp add: validate_translation_request_def py_get_def py_strip_def strip_def py_isspace_def)
  have v3: "validate_translation_request ?d3 = Inr (True, None)"
    by (simp add: validate_translation_request_def py_get_def py_strip_def strip_def py_isspace_def)
  have t3: "trimmed ?d3 ''text'' = ''Hello''" "trimmed ?d3 ''target_language'' = ''fr''"
    by (simp_all add: trimmed_def strip_def py_isspace_def)
  have v4: "validate_test_result_data ?d4
              = Inr (False, Some ''Accuracy must be a valid number'', None)"
    using float_of_string_abc by (simp add: validate_test_result_data_def py_get_def py_float_def)
  have v5: "validate_test_result_data ?d5 = Inr (True, None, Some (Finite (191 / 2)))"
    using float_of_string_95_5
    by (simp add: validate_test_result_data_def py_get_def py_float_def float_gt_def)
  have v6: "validate_test_result_data ?d6
              = Inl (OverflowError ''int too large to convert to float'')"
    using float_of_int_huge by (simp add: validate_test_result_data_def py_get_def py_float_def)
  note r1 = routes_agree_with_validators [where data = ?d1 and cfg = no_credentials
      and svc = "init_service no_credentials" and post = provider_down
      and e = "no_attribute (JInt 5) ''strip''"]
  note r2 = routes_agree_with_validators [where data = ?d2 and cfg = no_credentials
      and svc = "init_service no_credentials" and post = provider_down
      and m = "''Please enter text to translate''"]
  note r3 = routes_agree_with_validators [where data = ?d3 and cfg = no_credentials
      and svc = "init_service no_credentials" and post = provider_down, unfolded t3]
  note r4 = routes_agree_with_validators [where data = ?d4 and u = "''7f9c''"
      and ins = "insert_row 1 new_year" and m' = "''Accuracy must be a valid number''"]
  note r5 = routes_agree_with_validators [where data = ?d5 and u = "''7f9c''"
      and ins = "insert_row 1 new_year" and a = "Finite (191 / 2)"]
  note r6 = routes_agree_with_validators [where data = ?d6 and u = "''7f9c''"
      and ins = "insert_row 1 new_year"
      and e' = "OverflowError ''int too large to convert to float''"]
  from r1 v1 have 1: "translate no_credentials (init_service no_credentials) provider_down ?d1
      = Inl (no_attribute (JInt 5) ''strip'')"
    by blast
  from r2 v2 have 2: "translate no_credentials (init_service no_credentials) provider_down ?d2
      = Inr (error_response 400 ''Please enter text to translate'', [])"
    by blast
  from r3 v3 have 3: "\<exists>r. translate no_credentials (init_service no_credentials) provider_down ?d3
            = Inr (r, snd (translate_text no_credentials (init_service no_credentials)
                             provider_down ''Hello'' ''fr''))
          \<and> body r = fst (translate_text no_credentials (init_service no_credentials)
                             provider_down ''Hello'' ''fr'')
          \<and> (status r = 200 \<or> status r = 500)"
    by blast
  from r6 v6 have 4: "save_test_results_try ''7f9c'' (insert_row 1 new_year) ?d6
      = Inl (OverflowError ''int too large to convert to float'')"
    by blast
  from r4 v4 have 5: "save_test_results_try ''7f9c'' (insert_row 1 new_year) ?d4
      = Inr (error_response 400 ''Accuracy must be a valid number'')"
    by blast
  from r5 v5 have 6: "save_test_results_try ''7f9c'' (insert_row 1 new_year) ?d5
      = store_test_result ''7f9c'' (insert_row 1 new_year) ?d5 (Finite (191 / 2))"
    by blast
  show ?thesis
    by (intro conjI 1 2 3 4 5 6)
qed

section \<open>The list query\<close>

lemma set_insert_desc: "set (insert_desc x xs) = insert x (set xs)"
  by (induction xs) auto

lemma sorted_insert_desc:
  "sorted_wrt newest_first xs \<Longrightarrow> sorted_wrt newest_first (insert_desc x xs)"
  by (induction xs) (auto simp: set_insert_desc newest_first_def)

lemma foldl_insert_desc:
  "sorted_wrt newest_first acc \<Longrightarrow>
     sorted_wrt newest_first (foldl (\<lambda>acc x. insert_desc x acc) acc rows)
     \<and> set (foldl (\<lambda>acc x. insert_desc x acc) acc rows) = set acc \<union> set rows
     \<and> length (foldl (\<lambda>acc x. insert_desc x acc) acc rows) = length acc + length rows"
proof (induction rows arbitrary: acc)
  case Nil
  then show ?case by simp
next
  case (Cons r rows)
  have l: "length (insert_desc r acc) = Suc (length acc)"
    by (induction acc) auto
  from Cons.IH [OF sorted_insert_desc [OF Cons.prems, of r]] l show ?case
    by (auto simp: set_insert_desc)
qed

lemma order_by_sorted: "sorted_wrt newest_first (order_by_created_at_desc rows)"
  using foldl_insert_desc [of "[]" rows] by (simp add: order_by_created_at_desc_def)

lemma order_by_set: "set (order_by_created_at_desc rows) = set rows"
  using foldl_insert_desc [of "[]" rows] by (simp add: order_by_created_at_desc_def)

lemma order_by_length: "length (order_by_created_at_desc rows) = length rows"
  using foldl_insert_desc [of "[]" rows] by (simp add: order_by_created_at_desc_def)

text \<open>
  C1, amended. Every page of every list query is ordered by \<open>created_at\<close>, newest first;
  its rows are rows of the table, and all have the requested outcome when a filter is
  given. Nothing is said about rows with equal timestamps.
\<close>

theorem list_query_newest_first:
  "sorted_wrt newest_first (get_test_results_items max_per_page page per_page outcome_filter table)
   \<and> set (get_test_results_items max_per_page page per_page outcome_filter table) \<subseteq> set table
   \<and> (\<forall>f r. outcome_filter = Some f \<and> f \<noteq> []
          \<and> r \<in> set (get_test_results_items max_per_page page per_page outcome_filter table)
        \<longrightarrow> outcome r = f)"
proof -
  have s: "sorted_wrt newest_first (filtered_query outcome_filter table)"
    by (simp add: filtered_query_def order_by_sorted)
  have m: "set (paginate_items max_per_page page per_page xs) \<subseteq> set xs" for xs :: "test_result list"
    unfolding paginate_items_def by (meson set_take_subset set_drop_subset subset_trans)
  have 1: "sorted_wrt newest_first
             (get_test_results_items max_per_page page per_page outcome_filter table)"
    unfolding get_test_results_items_def paginate_items_def
    by (intro sorted_wrt_take sorted_wrt_drop s)
  have q: "set (filtered_query outcome_filter table) \<subseteq> set table"
    by (auto simp: filtered_query_def order_by_set split: option.splits)
  have 2: "set (get_test_results_items max_per_page page per_page outcome_filter table) \<subseteq> set table"
    unfolding get_test_results_items_def using m q by blast
  have 3: "outcome r = f"
    if "outcome_filter = Some f" "f \<noteq> []"
      "r \<in> set (get_test_results_items max_per_page page per_page outcome_filter table)" for f r
  proof -
    from that(3) m have "r \<in> set (filtered_query outcome_filter table)"
      unfolding get_test_results_items_def by blast
    with that(1,2) show ?thesis
      by (auto simp: filtered_query_def order_by_set)
  qed
  from 1 2 3 show ?thesis by blast
qed

lemma list_query_example: "get_test_results_items (Some 100) 1 10 (Some ''Success'')
       [stored 1 ''Success'' new_year, stored 2 ''Failure'' mid_year, stored 3 ''Success'' mid_year]
     = [stored 3 ''Success'' mid_year, stored 1 ''Success'' new_year]"
  by (simp add: get_test_results_items_def paginate_items_def effective_per_page_def effective_page_def
     filtered_query_def order_by_created_at_desc_def stored_def created_key_def new_year_def mid_year_def less_option_def less_eq_option_def)

theorem list_query_witness:
  "sorted_wrt newest_first [stored 3 ''Success'' mid_year, stored 1 ''Success'' new_year]
   \<and> outcome (stored 3 ''Success'' mid_year) = ''Success''"
proof -
  note t = list_query_newest_first [of "Some 100" 1 10 "Some ''Success''"
      "[stored 1 ''Success'' new_year, stored 2 ''Failure'' mid_year,
        stored 3 ''Success'' mid_year]", unfolded list_query_example]
  from t have 1: "sorted_wrt newest_first
      [stored 3 ''Success'' mid_year, stored 1 ''Success'' new_year]"
    by (rule conjunct1)
  from t have "\<forall>f r. Some ''Success'' = Some f \<and> f \<noteq> []
      \<and> r \<in> set [stored 3 ''Success'' mid_year, stored 1 ''Success'' new_year]
      \<longrightarrow> outcome r = f"
    by (rule conjunct2 [THEN conjunct2])
  then have "Some ''Success'' = Some ''Success'' \<and> ''Success'' \<noteq> []
      \<and> stored 3 ''Success'' mid_year
           \<in> set [stored 3 ''Success'' mid_year, stored 1 ''Success'' new_year]
      \<longrightarrow> outcome (stored 3 ''Success'' mid_year) = ''Success''"
    by (elim allE)
  then have 2: "outcome (stored 3 ''Success'' mid_year) = ''Success''"
    by simp
  from 1 2 show ?thesis by (rule conjI)
qed

text \<open>
  C1 as stated fails: the query orders by \<open>created_at\<close> alone. Two rows with the same
  timestamp come back as the backend scans them, here with the smaller id first.
\<close>

theorem ties_in_scan_order_not_by_id:
  "get_test_results_items (Some 100) 1 10 None [stored 1 ''Success'' new_year, stored 2 ''Success'' new_year]
     = [stored 1 ''Success'' new_year, stored 2 ''Success'' new_year]
   \<and> \<not> sorted_wrt newest_first_then_id
         (get_test_results_items (Some 100) 1 10 None
            [stored 1 ''Success'' new_year, stored 2 ''Success'' new_year])"
  by (simp add: get_test_results_items_def paginate_items_def effective_per_page_def effective_page_def
     filtered_query_def order_by_created_at_desc_def stored_def created_key_def new_year_def newest_first_then_id_def)

section \<open>The language catalog\<close>

lemma load_languages_nonempty: "load_languages r = Inr ls \<Longrightarrow> \<exists>es. ls = sentinel # es"
  by (auto simp: load_languages_def split: http_outcome.splits sum.splits bool.splits)

lemma calls_cached:
  "languages_cache svc = Some (l # ls) \<Longrightarrow>
     calls rs svc = (map (\<lambda>r. (l # ls, 0)) rs, svc)"
  by (induction rs) (auto simp: get_supported_languages_def)

text \<open>
  C4. From an empty cache, a fetch that succeeds is one request, and from then on every
  call, whatever the provider would answer, sends no request and returns the same list;
  a fetch that fails is one request, leaves the service as it was, nothing cached, and
  the next call sends a request again.
\<close>

theorem language_cache_behaviour:
  "languages_cache svc = None \<longrightarrow>
     (load_languages r = Inr ls \<longrightarrow>
        get_supported_languages r svc = (ls, svc\<lparr>languages_cache := Some ls\<rparr>, 1)
        \<and> calls rs (svc\<lparr>languages_cache := Some ls\<rparr>)
            = (map (\<lambda>r'. (ls, 0)) rs, svc\<lparr>languages_cache := Some ls\<rparr>))
   \<and> (load_languages r = Inl e \<longrightarrow>
        get_supported_languages r svc = (get_fallback_languages, svc, 1)
        \<and> snd (snd (get_supported_languages r' svc)) = 1)"
proof (intro impI conjI)
  assume n: "languages_cache svc = None"
  {
    assume ok: "load_languages r = Inr ls"
    from ok n show "get_supported_languages r svc = (ls, svc\<lparr>languages_cache := Some ls\<rparr>, 1)"
      by (simp add: get_supported_languages_def)
    from load_languages_nonempty [OF ok] obtain es where es: "ls = sentinel # es" by blast
    show "calls rs (svc\<lparr>languages_cache := Some ls\<rparr>)
            = (map (\<lambda>r'. (ls, 0)) rs, svc\<lparr>languages_cache := Some ls\<rparr>)"
      unfolding es by (rule calls_cached) simp
  }
  {
    assume bad: "load_languages r = Inl e"
    from bad n show "get_supported_languages r svc = (get_fallback_languages, svc, 1)"
      by (simp add: get_supported_languages_def)
    from n show "snd (snd (get_supported_languages r' svc)) = 1"
      by (simp add: get_supported_languages_def split: sum.splits)
  }
qed


lemma load_two_languages:
  "load_languages (JsonBody two_languages)
     = Inr [sentinel, mk_language ''fr'' ''French'', mk_language ''de'' ''German'',
            mk_language ''xx'' ''xx'']"
  by code_simp

theorem language_cache_witness:
  "get_supported_languages (JsonBody two_languages) (init_service no_credentials)
     = ([sentinel, mk_language ''fr'' ''French'', mk_language ''de'' ''German'',
         mk_language ''xx'' ''xx''],
        (init_service no_credentials)\<lparr>languages_cache :=
           Some [sentinel, mk_language ''fr'' ''French'', mk_language ''de'' ''German'',
                 mk_language ''xx'' ''xx'']\<rparr>, 1)
   \<and> get_supported_languages (Timeout ''timed out'') (init_service no_credentials)
     = (get_fallback_languages, init_service no_credentials, 1)"
proof -
  have n: "languages_cache (init_service no_credentials) = None"
    by (simp add: init_service_def)
  have b: "load_languages (Timeout ''timed out'') = Inl (PyException ''timed out'')"
    by (simp add: load_languages_def)
  from language_cache_behaviour [of "init_service no_credentials" "JsonBody two_languages"
      "[sentinel, mk_language ''fr'' ''French'', mk_language ''de'' ''German'',
        mk_language ''xx'' ''xx'']" "[]"] n load_two_languages
  have 1: "get_supported_languages (JsonBody two_languages) (init_service no_credentials)
     = ([sentinel, mk_language ''fr'' ''French'', mk_language ''de'' ''German'',
         mk_language ''xx'' ''xx''],
        (init_service no_credentials)\<lparr>languages_cache :=
           Some [sentinel, mk_language ''fr'' ''French'', mk_language ''de'' ''German'',
                 mk_language ''xx'' ''xx'']\<rparr>, 1)"
    by blast
  from language_cache_behaviour [of "init_service no_credentials" "Timeout ''timed out''"
      _ _ "PyException ''timed out''"] n b
  have 2: "get_supported_languages (Timeout ''timed out'') (init_service no_credentials)
     = (get_fallback_languages, init_service no_credentials, 1)"
    by blast
  from 1 2 show ?thesis by (rule conjI)
qed




text \<open>Names that are numbers are listed by value, as \<open>sorted\<close> lists them.\<close>

lemma sorted_by_text_numbers:
  "sorted_by_text [\<lparr>lang_key = ''a'', lang_text = JInt 2\<rparr>,
                   \<lparr>lang_key = ''b'', lang_text = JFloat (Finite (3 / 2))\<rparr>,
                   \<lparr>lang_key = ''c'', lang_text = JBool True\<rparr>]
   = Inr [\<lparr>lang_key = ''c'', lang_text = JBool True\<rparr>,
          \<lparr>lang_key = ''b'', lang_text = JFloat (Finite (3 / 2))\<rparr>,
          \<lparr>lang_key = ''a'', lang_text = JInt 2\<rparr>]"
  by code_simp









section \<open>The translation client\<close>

lemma not_configured_contains:
  "sublist ''not configured'' not_configured_message"
  unfolding sublist_def not_configured_message_def
  by (rule exI [of _ "''Azure Translator service is ''"],
      rule exI [of _ "''. Please set the required environment variables.''"]) simp

text \<open>
  C6. Without all three credentials \<open>translate_text\<close> returns, for every text and target
  language, the failure whose message contains \<open>not configured\<close>, and sends no request.
\<close>

theorem not_configured_no_request:
  "\<not> is_configured cfg \<Longrightarrow>
     translate_text cfg svc post src lang = (failure not_configured_message, [])
     \<and> sublist ''not configured'' not_configured_message"
  using not_configured_contains
  by (simp add: translate_text_def not_configured_message_def)

theorem not_configured_witness:
  "\<not> is_configured no_credentials
   \<and> translate_text no_credentials (init_service no_credentials) provider_down ''Hello'' ''fr''
       = (failure not_configured_message, [])"
proof -
  have n: "\<not> is_configured no_credentials"
    by (simp add: is_configured_def no_credentials_def env_truthy_def)
  from not_configured_no_request [OF n, of "init_service no_credentials" provider_down
      "''Hello''" "''fr''"] n
  show ?thesis by blast
qed

lemma classify_transport: "classify (''Translation service error: '' @ m) = Some TransportError"
  by (simp add: classify_def not_configured_message_def)

lemma classify_failed: "classify (''Translation failed: '' @ m) = Some TranslationFailed"
  by (simp add: classify_def not_configured_message_def)

lemma classify_config: "classify not_configured_message = Some ConfigError"
  by (simp add: classify_def)

lemma classify_timeout:
  "classify ''Translation request timed out. Please try again.'' = Some TimeoutError"
  by (simp add: classify_def not_configured_message_def)

lemma read_translation_unexpected:
  "\<not> expected_shape j \<Longrightarrow> \<exists>e. read_translation j l = Inl e"
  by (cases j)
     (auto simp: expected_shape_def read_translation_def py_len_def py_index0_def
        py_contains_str_def build_translation_def py_getitem_str_def
        split: list.splits json.splits option.splits bool.splits sum.splits)


text \<open>
  C7. \<open>translate_text\<close> always returns a dict: a translation, or a failure whose message
  belongs to exactly one kind. Missing credentials give the configuration error; then a
  timeout gives the timeout error, any other exception of the HTTP library the transport
  error with its cause, and anything else the translation-failed error with its cause.
  For a decoded answer the cause is the exception that reading it raises: every answer of
  an unexpected shape raises one, the code's own \<open>Invalid translation response\<close> for an
  empty answer or a first element without \<open>translations\<close>, the interpreter's error for an
  empty list of translations or a translation without \<open>text\<close>. At most one request is
  sent.
\<close>

theorem translate_text_classifies_failures:
  "(\<not> is_configured cfg \<longrightarrow>
      fst (translate_text cfg svc post src lang) = failure not_configured_message)
   \<and> (is_configured cfg \<and> post (translate_request svc src lang) = Timeout m \<longrightarrow>
      fst (translate_text cfg svc post src lang)
        = failure ''Translation request timed out. Please try again.'')
   \<and> (is_configured cfg \<and> post (translate_request svc src lang) = RequestException m \<longrightarrow>
      fst (translate_text cfg svc post src lang) = failure (''Translation service error: '' @ m))
   \<and> (is_configured cfg \<and> post (translate_request svc src lang) = OtherException e \<longrightarrow>
      fst (translate_text cfg svc post src lang)
        = failure (''Translation failed: '' @ str_exn e))
   \<and> (is_configured cfg \<and> post (translate_request svc src lang) = JsonBody j
        \<and> \<not> expected_shape j \<longrightarrow>
      (\<exists>x. read_translation j lang = Inl x
           \<and> fst (translate_text cfg svc post src lang)
               = failure (''Translation failed: '' @ str_exn x)))
   \<and> (is_configured cfg \<and> post (translate_request svc src lang) = JsonBody j
        \<and> read_translation j lang = Inl x' \<longrightarrow>
      fst (translate_text cfg svc post src lang)
        = failure (''Translation failed: '' @ str_exn x'))
   \<and> (is_configured cfg \<and> post (translate_request svc src lang) = JsonBody j
        \<and> read_translation j lang = Inr d \<longrightarrow>
      fst (translate_text cfg svc post src lang) = d)
   \<and> (is_configured cfg \<and> post (translate_request svc src lang) = JsonBody j
        \<and> (\<not> truthy j \<or> (\<exists>kvs rest. j = JArr (JObj kvs # rest)
                                \<and> map_of kvs ''translations'' = None)) \<longrightarrow>
      fst (translate_text cfg svc post src lang)
        = failure ''Translation failed: Invalid translation response'')
   \<and> (is_configured cfg \<and> post (translate_request svc src lang) = JsonBody j
        \<and> (\<exists>kvs rest. j = JArr (JObj kvs # rest)
                        \<and> map_of kvs ''translations'' = Some (JArr [])) \<longrightarrow>
      fst (translate_text cfg svc post src lang)
        = failure ''Translation failed: list index out of range'')
   \<and> (is_configured cfg \<and> post (translate_request svc src lang) = JsonBody j
        \<and> (\<exists>kvs rest t ts. j = JArr (JObj kvs # rest)
                        \<and> map_of kvs ''translations'' = Some (JArr (JObj t # ts))
                        \<and> map_of t ''text'' = None) \<longrightarrow>
      fst (translate_text cfg svc post src lang)
        = failure (''Translation failed: '' @ [CHR 0x27] @ ''text'' @ [CHR 0x27]))
   \<and> ((\<exists>msg c. fst (translate_text cfg svc post src lang) = failure msg
                 \<and> classify msg = Some c)
       \<or> (\<exists>a b. fst (translate_text cfg svc post src lang) =
              JObj [(''success'', JBool True), (''translated_text'', a),
                    (''source_language'', b), (''target_language'', JStr lang)]))
   \<and> length (snd (translate_text cfg svc post src lang)) \<le> 1"
proof -
  let ?R = "translate_text cfg svc post src lang"
  let ?req = "translate_request svc src lang"
  have 1: "\<not> is_configured cfg \<longrightarrow> fst ?R = failure not_configured_message"
    by (simp add: translate_text_def not_configured_message_def)
  have 2: "is_configured cfg \<and> post ?req = Timeout m \<longrightarrow>
      fst ?R = failure ''Translation request timed out. Please try again.''"
    by (simp add: translate_text_def)
  have 3: "is_configured cfg \<and> post ?req = RequestException m \<longrightarrow>
      fst ?R = failure (''Translation service error: '' @ m)"
    by (simp add: translate_text_def)
  have 4: "is_configured cfg \<and> post ?req = OtherException e \<longrightarrow>
      fst ?R = failure (''Translation failed: '' @ str_exn e)"
    by (simp add: translate_text_def)
  have body: "fst ?R = (case read_translation r lang of
                          Inr d \<Rightarrow> d
                        | Inl x \<Rightarrow> failure (''Translation failed: '' @ str_exn x))"
    if "is_configured cfg" "post ?req = JsonBody r" for r
    using that by (simp add: translate_text_def split: sum.split)
  have 5: "is_configured cfg \<and> post ?req = JsonBody j \<and> \<not> expected_shape j \<longrightarrow>
      (\<exists>x. read_translation j lang = Inl x
           \<and> fst ?R = failure (''Translation failed: '' @ str_exn x))"
  proof (intro impI, elim conjE)
    assume c: "is_configured cfg" and p: "post ?req = JsonBody j" and u: "\<not> expected_shape j"
    from read_translation_unexpected [OF u, of lang] obtain x
      where x: "read_translation j lang = Inl x" by blast
    with body [OF c p] have "fst ?R = failure (''Translation failed: '' @ str_exn x)"
      by simp
    with x show "\<exists>x. read_translation j lang = Inl x
           \<and> fst ?R = failure (''Translation failed: '' @ str_exn x)"
      by blast
  qed
  have 8: "is_configured cfg \<and> post ?req = JsonBody j \<and> read_translation j lang = Inl x' \<longrightarrow>
      fst ?R = failure (''Translation failed: '' @ str_exn x')"
    using body [of j] by auto
  have 9: "is_configured cfg \<and> post ?req = JsonBody j \<and> read_translation j lang = Inr d \<longrightarrow>
      fst ?R = d"
    using body [of j] by auto
  have 10: "is_configured cfg \<and> post ?req = JsonBody j
        \<and> (\<not> truthy j \<or> (\<exists>kvs rest. j = JArr (JObj kvs # rest)
                                \<and> map_of kvs ''translations'' = None)) \<longrightarrow>
      fst ?R = failure ''Translation failed: Invalid translation response''"
  proof (intro impI, elim conjE)
    assume c: "is_configured cfg" and p: "post ?req = JsonBody j"
      and u: "\<not> truthy j \<or> (\<exists>kvs rest. j = JArr (JObj kvs # rest)
                                \<and> map_of kvs ''translations'' = None)"
    from u have "read_translation j lang = Inl (PyException ''Invalid translation response'')"
      by (auto simp: read_translation_def py_len_def py_index0_def py_contains_str_def)
    with body [OF c p] show "fst ?R = failure ''Translation failed: Invalid translation response''"
      by simp
  qed
  have 11: "is_configured cfg \<and> post ?req = JsonBody j
        \<and> (\<exists>kvs rest. j = JArr (JObj kvs # rest)
                        \<and> map_of kvs ''translations'' = Some (JArr [])) \<longrightarrow>
      fst ?R = failure ''Translation failed: list index out of range''"
  proof (intro impI, elim conjE)
    assume c: "is_configured cfg" and p: "post ?req = JsonBody j"
      and u: "\<exists>kvs rest. j = JArr (JObj kvs # rest)
                        \<and> map_of kvs ''translations'' = Some (JArr [])"
    from u have "read_translation j lang = Inl (IndexError ''list index out of range'')"
      by (auto simp: read_translation_def py_len_def py_index0_def py_contains_str_def
          build_translation_def py_getitem_str_def)
    with body [OF c p] show "fst ?R = failure ''Translation failed: list index out of range''"
      by simp
  qed
  have 12: "is_configured cfg \<and> post ?req = JsonBody j
        \<and> (\<exists>kvs rest t ts. j = JArr (JObj kvs # rest)
                        \<and> map_of kvs ''translations'' = Some (JArr (JObj t # ts))
                        \<and> map_of t ''text'' = None) \<longrightarrow>
      fst ?R = failure (''Translation failed: '' @ [CHR 0x27] @ ''text'' @ [CHR 0x27])"
  proof (intro impI, elim conjE)
    assume c: "is_configured cfg" and p: "post ?req = JsonBody j"
      and u: "\<exists>kvs rest t ts. j = JArr (JObj kvs # rest)
                        \<and> map_of kvs ''translations'' = Some (JArr (JObj t # ts))
                        \<and> map_of t ''text'' = None"
    from u have "read_translation j lang = Inl (KeyError ([CHR 0x27] @ ''text'' @ [CHR 0x27]))"
      by (auto simp: read_translation_def py_len_def py_index0_def py_contains_str_def
          build_translation_def py_getitem_str_def)
    with body [OF c p]
    show "fst ?R = failure (''Translation failed: '' @ [CHR 0x27] @ ''text'' @ [CHR 0x27])"
      by simp
  qed
  have 6: "(\<exists>msg c. fst ?R = failure msg \<and> classify msg = Some c)
       \<or> (\<exists>a b. fst ?R = JObj [(''success'', JBool True), (''translated_text'', a),
                    (''source_language'', b), (''target_language'', JStr lang)])"
  proof (cases "is_configured cfg")
    case False
    with 1 classify_config show ?thesis by auto
  next
    case True
    show ?thesis
    proof (cases "post ?req")
      case (Timeout x)
      with True classify_timeout show ?thesis by (auto simp: translate_text_def)
    next
      case (RequestException x)
      with True classify_transport show ?thesis by (auto simp: translate_text_def)
    next
      case (OtherException x)
      with True classify_failed show ?thesis by (auto simp: translate_text_def)
    next
      case (JsonBody r)
      show ?thesis
      proof (cases "read_translation r lang")
        case (Inl x)
        with True JsonBody classify_failed show ?thesis by (auto simp: translate_text_def)
      next
        case (Inr d)
        from read_translation_Inr [OF Inr] True JsonBody Inr show ?thesis
          by (auto simp: translate_text_def)
      qed
    qed
  qed
  have 7: "length (snd ?R) \<le> 1"
    by (simp add: translate_text_def Let_def split: http_outcome.split sum.split)
  show ?thesis
    by (intro conjI 1 2 3 4 5 8 9 10 11 12 6 7)
qed

theorem translate_text_witness:
  "\<not> is_configured no_credentials
   \<and> fst (translate_text no_credentials (init_service no_credentials) provider_down
            ''Hello'' ''fr'') = failure not_configured_message
   \<and> is_configured with_credentials
   \<and> fst (translate_text with_credentials (init_service with_credentials)
            (\<lambda>req. Timeout ''read timed out'') ''Hello'' ''fr'')
       = failure ''Translation request timed out. Please try again.''
   \<and> fst (translate_text with_credentials (init_service with_credentials) provider_down
            ''Hello'' ''fr'')
       = failure ''Translation service error: connection refused''
   \<and> fst (translate_text with_credentials (init_service with_credentials)
            (\<lambda>req. OtherException (ValueError ''Expecting value'')) ''Hello'' ''fr'')
       = failure ''Translation failed: Expecting value''
   \<and> \<not> expected_shape (JObj [(''error'', JStr ''quota'')])
   \<and> read_translation (JObj [(''error'', JStr ''quota'')]) ''fr'' = Inl (KeyError ''0'')
   \<and> fst (translate_text with_credentials (init_service with_credentials)
            (\<lambda>req. JsonBody (JObj [(''error'', JStr ''quota'')])) ''Hello'' ''fr'')
       = failure ''Translation failed: 0''
   \<and> fst (translate_text with_credentials (init_service with_credentials)
            (\<lambda>req. JsonBody (JArr [])) ''Hello'' ''fr'')
       = failure ''Translation failed: Invalid translation response''
   \<and> fst (translate_text with_credentials (init_service with_credentials)
            (\<lambda>req. JsonBody (JArr [JObj [(''translations'', JArr [])]])) ''Hello'' ''fr'')
       = failure ''Translation failed: list index out of range''
   \<and> fst (translate_text with_credentials (init_service with_credentials)
            (\<lambda>req. JsonBody (JArr [JObj [(''translations'', JArr [JObj []])]])) ''Hello'' ''fr'')
       = failure (''Translation failed: '' @ [CHR 0x27] @ ''text'' @ [CHR 0x27])
   \<and> expected_shape (JArr [JObj [(''translations'', JArr [JObj [(''text'', JStr ''Bonjour'')]]),
                      (''detectedLanguage'', JInt 1)]])
   \<and> fst (translate_text with_credentials (init_service with_credentials)
            (\<lambda>req. JsonBody (JArr [JObj [(''translations'', JArr [JObj [(''text'', JStr ''Bonjour'')]]),
                      (''detectedLanguage'', JInt 1)]])) ''Hello'' ''fr'')
       = failure (''Translation failed: '' @ [CHR 0x27] @ ''int'' @ [CHR 0x27]
                    @ '' object has no attribute '' @ [CHR 0x27] @ ''get'' @ [CHR 0x27])
   \<and> fst (translate_text with_credentials (init_service with_credentials)
            (\<lambda>req. JsonBody (JArr [JObj [(''translations'',
                        JArr [JObj [(''text'', JStr ''Bonjour'')]]),
                      (''detectedLanguage'', JObj [(''language'', JStr ''en'')])]]))
            ''Hello'' ''fr'')
       = JObj [(''success'', JBool True), (''translated_text'', JStr ''Bonjour''),
               (''source_language'', JStr ''en''), (''target_language'', JStr ''fr'')]"
proof -
  let ?svc = "init_service with_credentials"
  let ?bonjour = "JArr [JObj [(''translations'', JArr [JObj [(''text'', JStr ''Bonjour'')]]),
                      (''detectedLanguage'', JObj [(''language'', JStr ''en'')])]]"
  let ?inner = "JArr [JObj [(''translations'', JArr [JObj [(''text'', JStr ''Bonjour'')]]),
                      (''detectedLanguage'', JInt 1)]]"
  have n: "\<not> is_configured no_credentials"
    by (simp add: is_configured_def no_credentials_def env_truthy_def)
  have c: "is_configured with_credentials"
    by (simp add: is_configured_def with_credentials_def env_truthy_def)
  have p: "provider_down (translate_request ?svc ''Hello'' ''fr'')
             = RequestException ''connection refused''"
    by (simp add: provider_down_def)
  have u: "\<not> expected_shape (JObj [(''error'', JStr ''quota'')])"
    by (simp add: expected_shape_def)
  have k: "read_translation (JObj [(''error'', JStr ''quota'')]) ''fr'' = Inl (KeyError ''0'')"
    by (simp add: read_translation_def py_len_def py_index0_def)
  have b: "read_translation ?bonjour ''fr''
             = Inr (JObj [(''success'', JBool True), (''translated_text'', JStr ''Bonjour''),
                          (''source_language'', JStr ''en''), (''target_language'', JStr ''fr'')])"
    by (simp add: read_translation_def py_len_def py_index0_def py_contains_str_def
        build_translation_def py_getitem_str_def py_get_def)
  from translate_text_classifies_failures [where cfg = no_credentials
      and post = provider_down and svc = "init_service no_credentials"
      and src = "''Hello''" and lang = "''fr''"] n
  have 1: "fst (translate_text no_credentials (init_service no_credentials) provider_down
            ''Hello'' ''fr'') = failure not_configured_message"
    by blast
  from translate_text_classifies_failures [where cfg = with_credentials
      and post = "\<lambda>req. Timeout ''read timed out''" and svc = ?svc
      and src = "''Hello''" and lang = "''fr''" and m = "''read timed out''"] c
  have 2: "fst (translate_text with_credentials ?svc
            (\<lambda>req. Timeout ''read timed out'') ''Hello'' ''fr'')
       = failure ''Translation request timed out. Please try again.''"
    by blast
  from translate_text_classifies_failures [where cfg = with_credentials
      and post = provider_down and svc = ?svc
      and src = "''Hello''" and lang = "''fr''" and m = "''connection refused''"] c p
  have 3: "fst (translate_text with_credentials ?svc provider_down ''Hello'' ''fr'')
       = failure (''Translation service error: '' @ ''connection refused'')"
    by blast
  from translate_text_classifies_failures [where cfg = with_credentials
      and post = "\<lambda>req. OtherException (ValueError ''Expecting value'')" and svc = ?svc
      and src = "''Hello''" and lang = "''fr''" and e = "ValueError ''Expecting value''"] c
  have 4: "fst (translate_text with_credentials ?svc
            (\<lambda>req. OtherException (ValueError ''Expecting value'')) ''Hello'' ''fr'')
       = failure (''Translation failed: '' @ str_exn (ValueError ''Expecting value''))"
    by blast
  from translate_text_classifies_failures [where cfg = with_credentials
      and post = "\<lambda>req. JsonBody (JObj [(''error'', JStr ''quota'')])" and svc = ?svc
      and src = "''Hello''" and lang = "''fr''" and j = "JObj [(''error'', JStr ''quota'')]"]
    c u
  have "\<exists>x. read_translation (JObj [(''error'', JStr ''quota'')]) ''fr'' = Inl x
           \<and> fst (translate_text with_credentials ?svc
                   (\<lambda>req. JsonBody (JObj [(''error'', JStr ''quota'')])) ''Hello'' ''fr'')
               = failure (''Translation failed: '' @ str_exn x)"
    by blast
  then have 5: "fst (translate_text with_credentials ?svc
                   (\<lambda>req. JsonBody (JObj [(''error'', JStr ''quota'')])) ''Hello'' ''fr'')
               = failure (''Translation failed: '' @ str_exn (KeyError ''0''))"
    unfolding k by blast
  from translate_text_classifies_failures [where cfg = with_credentials
      and post = "\<lambda>req. JsonBody (JArr [])" and svc = ?svc
      and src = "''Hello''" and lang = "''fr''" and j = "JArr []"] c
  have 6: "fst (translate_text with_credentials ?svc (\<lambda>req. JsonBody (JArr [])) ''Hello'' ''fr'')
       = failure ''Translation failed: Invalid translation response''"
    by simp
  from translate_text_classifies_failures [where cfg = with_credentials
      and post = "\<lambda>req. JsonBody (JArr [JObj [(''translations'', JArr [])]])" and svc = ?svc
      and src = "''Hello''" and lang = "''fr''"
      and j = "JArr [JObj [(''translations'', JArr [])]]"] c
  have 7: "fst (translate_text with_credentials ?svc
            (\<lambda>req. JsonBody (JArr [JObj [(''translations'', JArr [])]])) ''Hello'' ''fr'')
       = failure ''Translation failed: list index out of range''"
    by simp
  from translate_text_classifies_failures [where cfg = with_credentials
      and post = "\<lambda>req. JsonBody (JArr [JObj [(''translations'', JArr [JObj []])]])"
      and svc = ?svc and src = "''Hello''" and lang = "''fr''"
      and j = "JArr [JObj [(''translations'', JArr [JObj []])]]"] c
  have 8: "fst (translate_text with_credentials ?svc
            (\<lambda>req. JsonBody (JArr [JObj [(''translations'', JArr [JObj []])]])) ''Hello'' ''fr'')
       = failure (''Translation failed: '' @ [CHR 0x27] @ ''text'' @ [CHR 0x27])"
    by simp
  from translate_text_classifies_failures [where cfg = with_credentials
      and post = "\<lambda>req. JsonBody ?bonjour" and svc = ?svc
      and src = "''Hello''" and lang = "''fr''" and j = ?bonjour
      and d = "JObj [(''success'', JBool True), (''translated_text'', JStr ''Bonjour''),
                     (''source_language'', JStr ''en''), (''target_language'', JStr ''fr'')]"]
    c b
  have 9: "fst (translate_text with_credentials ?svc (\<lambda>req. JsonBody ?bonjour) ''Hello'' ''fr'')
       = JObj [(''success'', JBool True), (''translated_text'', JStr ''Bonjour''),
               (''source_language'', JStr ''en''), (''target_language'', JStr ''fr'')]"
    by blast
  have s: "expected_shape ?inner"
    by (simp add: expected_shape_def)
  have ki: "read_translation ?inner ''fr'' = Inl (no_attribute (JInt 1) ''get'')"
    by (simp add: read_translation_def py_len_def py_index0_def py_contains_str_def
        build_translation_def py_getitem_str_def py_get_def)
  from translate_text_classifies_failures [where cfg = with_credentials
      and post = "\<lambda>req. JsonBody ?inner" and svc = ?svc
      and src = "''Hello''" and lang = "''fr''" and j = ?inner
      and x' = "no_attribute (JInt 1) ''get''"] c ki
  have "fst (translate_text with_credentials ?svc (\<lambda>req. JsonBody ?inner) ''Hello'' ''fr'')
       = failure (''Translation failed: '' @ str_exn (no_attribute (JInt 1) ''get''))"
    by blast
  then have 10: "fst (translate_text with_credentials ?svc (\<lambda>req. JsonBody ?inner)
                   ''Hello'' ''fr'')
       = failure (''Translation failed: '' @ [CHR 0x27] @ ''int'' @ [CHR 0x27]
                    @ '' object has no attribute '' @ [CHR 0x27] @ ''get'' @ [CHR 0x27])"
    by (simp add: no_attribute_def)
  from n 1 c 2 3 4 u k 5 6 7 8 s 10 9 show ?thesis
    by simp
qed

section \<open>The export\<close>

lemma is_digit_char_of: "d < 10 \<Longrightarrow> is_digit (char_of (48 + (d::nat)))"
  by (simp add: is_digit_def)

lemma digit_val_char_of: "d < 10 \<Longrightarrow> digit_val (char_of (48 + (d::nat))) = int d"
proof -
  assume d: "d < 10"
  have "(of_char (char_of (48 + d)) :: int) = int (of_char (char_of (48 + d)))"
    by (simp only: of_nat_of_char)
  with d show ?thesis
    by (simp add: digit_val_def)
qed

lemma str_nat_digits:
  "0 \<le> n \<Longrightarrow> list_all is_digit (str_nat n)"
proof (induction n rule: str_nat.induct)
  case (1 n)
  show ?case
  proof (cases "n < 10")
    case True
    with 1 show ?thesis by (simp add: str_nat.simps [of n] is_digit_char_of)
  next
    case False
    with 1 have "list_all is_digit (str_nat (n div 10))" by simp
    moreover have "is_digit (char_of (48 + nat (n mod 10)))"
      by (rule is_digit_char_of) auto
    ultimately show ?thesis using False by (simp add: str_nat.simps [of n])
  qed
qed

lemma str_nat_length:
  "0 \<le> n \<Longrightarrow> n < 10 ^ k \<Longrightarrow> 0 < k \<Longrightarrow> length (str_nat n) \<le> k"
proof (induction n arbitrary: k rule: str_nat.induct)
  case (1 n)
  show ?case
  proof (cases "n < 10")
    case True
    with 1 show ?thesis by (simp add: str_nat.simps [of n])
  next
    case False
    from 1(4) obtain j where j: "k = Suc j" by (cases k) auto
    from False 1(3) j have j0: "0 < j" by (cases j) auto
    from 1(3) j have "n div 10 < 10 ^ j" by auto
    with 1(1) [OF False _ _ j0] 1(2) have "length (str_nat (n div 10)) \<le> j" by simp
    with False j show ?thesis by (simp add: str_nat.simps [of n])
  qed
qed

lemma str_nat_length_4:
  assumes "1000 \<le> n" "n \<le> 9999"
  shows "length (str_nat n) = 4"
proof -
  from assms have a: "\<not> n < 10" "\<not> n div 10 < 10" "\<not> n div 10 div 10 < 10"
    "n div 10 div 10 div 10 < 10"
    by auto
  show ?thesis
    using a
    by (simp add: str_nat.simps [of n] str_nat.simps [of "n div 10"]
        str_nat.simps [of "n div 10 div 10"] str_nat.simps [of "n div 10 div 10 div 10"])
qed

lemma int_of_digits_snoc: "int_of_digits (ds @ [d]) = 10 * int_of_digits ds + d"
  by (simp add: int_of_digits_def)

lemma digits_value_snoc: "digits_value (s @ [c]) = 10 * digits_value s + digit_val c"
  by (simp add: digits_value_def int_of_digits_snoc)

lemma digits_value_str_nat: "0 \<le> n \<Longrightarrow> digits_value (str_nat n) = n"
proof (induction n rule: str_nat.induct)
  case (1 n)
  show ?case
  proof (cases "n < 10")
    case True
    with 1(2) have "nat n < 10" by auto
    from digit_val_char_of [OF this] 1(2) True show ?thesis
      by (simp add: str_nat.simps [of n] digits_value_def int_of_digits_def)
  next
    case False
    with 1 have "digits_value (str_nat (n div 10)) = n div 10" by simp
    moreover have "nat (n mod 10) < 10" by auto
    from digit_val_char_of [OF this]
    have "digit_val (char_of (48 + nat (n mod 10))) = n mod 10" by simp
    ultimately show ?thesis using False
      by (simp add: str_nat.simps [of n] digits_value_snoc)
  qed
qed

lemma foldl_digits_zero:
  "foldl (\<lambda>n d. 10 * n + d) 0 (replicate k (0::int) @ ds) = foldl (\<lambda>n d. 10 * n + d) 0 ds"
  by (induction k) auto

lemma digits_value_zfill: "digits_value (zfill k s) = digits_value s"
  using foldl_digits_zero [of "k - length s" "map digit_val s"]
  by (simp add: digits_value_def zfill_def int_of_digits_def digit_val_def)

lemma zfill_digits:
  "0 \<le> n \<Longrightarrow> n < 10 ^ k \<Longrightarrow> 0 < k \<Longrightarrow>
     length (zfill k (str_nat n)) = k \<and> list_all is_digit (zfill k (str_nat n))"
  using str_nat_length [of n k] str_nat_digits [of n]
  by (auto simp: zfill_def is_digit_def list_all_iff)

lemma length2E: "length xs = 2 \<Longrightarrow> \<exists>a b. xs = [a, b]"
  by (cases xs; cases "tl xs") auto

lemma length4E: "length xs = 4 \<Longrightarrow> \<exists>a b c d. xs = [a, b, c, d]"
proof -
  assume "length xs = 4"
  then obtain a ys where 1: "xs = a # ys" "length ys = 3"
    by (cases xs) auto
  then obtain b zs where 2: "ys = b # zs" "length zs = 2"
    by (cases ys) auto
  from length2E [OF 2(2)] 1 2 show ?thesis by auto
qed

lemma two_digits:
  assumes "0 \<le> n" "n < 10 ^ 2"
  shows "\<exists>a b. zfill 2 (str_nat n) = [a, b] \<and> is_digit a \<and> is_digit b
               \<and> digits_value [a, b] = n"
proof -
  from zfill_digits [OF assms] have l: "length (zfill 2 (str_nat n)) = 2"
    and g: "list_all is_digit (zfill 2 (str_nat n))" by auto
  from length2E [OF l] obtain a b where e: "zfill 2 (str_nat n) = [a, b]" by blast
  from digits_value_zfill [of 2 "str_nat n"] digits_value_str_nat [OF assms(1)]
  have "digits_value (zfill 2 (str_nat n)) = n" by simp
  with e g show ?thesis by simp
qed

lemma four_digits:
  assumes "1000 \<le> n" "n \<le> 9999"
  shows "\<exists>a b c d. str_nat n = [a, b, c, d] \<and> list_all is_digit [a, b, c, d]
               \<and> digits_value [a, b, c, d] = n"
proof -
  from length4E [OF str_nat_length_4 [OF assms]] obtain a b c d
    where e: "str_nat n = [a, b, c, d]" by blast
  from assms have n: "0 \<le> n" by simp
  from str_nat_digits [OF n] digits_value_str_nat [OF n] e show ?thesis by simp
qed

lemma strftime_shows:
  assumes "plausible d"
  shows "is_ymd_hms (strftime_ymd_hms d)
         \<and> read_ymd_hms (strftime_ymd_hms d)
             = (year d, month d, day d, hour d, minute d, second d)"
proof -
  from assms have y: "1000 \<le> year d" "year d \<le> 9999" and mo: "0 \<le> month d" "month d < 10 ^ 2"
    and da: "0 \<le> day d" "day d < 10 ^ 2" and h: "0 \<le> hour d" "hour d < 10 ^ 2"
    and mi: "0 \<le> minute d" "minute d < 10 ^ 2" and se: "0 \<le> second d" "second d < 10 ^ 2"
    by (auto simp: plausible_def)
  from four_digits [OF y] obtain y1 y2 y3 y4
    where 1: "str_nat (year d) = [y1, y2, y3, y4]" "list_all is_digit [y1, y2, y3, y4]"
      "digits_value [y1, y2, y3, y4] = year d"
    by blast
  from two_digits [OF mo] obtain m1 m2
    where 2: "zfill 2 (str_nat (month d)) = [m1, m2]" "is_digit m1" "is_digit m2"
      "digits_value [m1, m2] = month d"
    by blast
  from two_digits [OF da] obtain d1 d2
    where 3: "zfill 2 (str_nat (day d)) = [d1, d2]" "is_digit d1" "is_digit d2"
      "digits_value [d1, d2] = day d"
    by blast
  from two_digits [OF h] obtain h1 h2
    where 4: "zfill 2 (str_nat (hour d)) = [h1, h2]" "is_digit h1" "is_digit h2"
      "digits_value [h1, h2] = hour d"
    by blast
  from two_digits [OF mi] obtain i1 i2
    where 5: "zfill 2 (str_nat (minute d)) = [i1, i2]" "is_digit i1" "is_digit i2"
      "digits_value [i1, i2] = minute d"
    by blast
  from two_digits [OF se] obtain s1 s2
    where 6: "zfill 2 (str_nat (second d)) = [s1, s2]" "is_digit s1" "is_digit s2"
      "digits_value [s1, s2] = second d"
    by blast
  have s: "strftime_ymd_hms d
             = [y1, y2, y3, y4, CHR ''-'', m1, m2, CHR ''-'', d1, d2, CHR '' '',
                h1, h2, CHR '':'', i1, i2, CHR '':'', s1, s2]"
    unfolding strftime_ymd_hms_def 1(1) 2(1) 3(1) 4(1) 5(1) 6(1) by simp
  have a: "is_ymd_hms (strftime_ymd_hms d)"
    unfolding s is_ymd_hms_def using 1(2) 2(2,3) 3(2,3) 4(2,3) 5(2,3) 6(2,3) by simp
  have b: "read_ymd_hms (strftime_ymd_hms d)
             = (year d, month d, day d, hour d, minute d, second d)"
    unfolding s read_ymd_hms_def using 1(3) 2(4) 3(4) 4(4) 5(4) 6(4) by simp
  from a b show ?thesis by (rule conjI)
qed

lemma shows_timestamp_strftime:
  "shows_timestamp (case t of None \<Rightarrow> [] | Some d \<Rightarrow> strftime_ymd_hms d) t"
  by (cases t) (simp_all add: shows_timestamp_def strftime_shows)

lemma row_of_export_row: "row_of (export_row r) r"
  using shows_timestamp_strftime [of "created_at r"]
  by (simp add: row_of_def export_row_def)

lemma length_insert_desc: "length (insert_desc x xs) = Suc (length xs)"
  by (induction xs) auto

lemma mset_insert_desc: "mset (insert_desc x xs) = add_mset x (mset xs)"
  by (induction xs) auto

lemma mset_foldl_insert_desc:
  "mset (foldl (\<lambda>acc x. insert_desc x acc) acc rows) = mset acc + mset rows"
  by (induction rows arbitrary: acc) (auto simp: mset_insert_desc)

lemma mset_order_by: "mset (order_by_created_at_desc rows) = mset rows"
  by (simp add: order_by_created_at_desc_def mset_foldl_insert_desc)

lemma order_by_Nil_iff: "order_by_created_at_desc rows = [] \<longleftrightarrow> rows = []"
  using mset_order_by [of rows] by (metis mset_zero_iff)

lemma foldl_longest:
  "foldl (\<lambda>m c. if m < f c then f c else m) (a::nat) xs = Max (insert a (f ` set xs))"
proof (induction xs arbitrary: a)
  case Nil
  show ?case by simp
next
  case (Cons x xs)
  have "Max (insert (max a (f x)) (f ` set xs)) = Max (insert a (insert (f x) (f ` set xs)))"
    by (cases "xs = []") (simp_all add: max.assoc)
  moreover have "(if a < f x then f x else a) = max a (f x)"
    by (simp add: max_def)
  ultimately show ?case
    using Cons [of "max a (f x)"] by simp
qed

lemma capped_width_adjusted: "capped_width rf (adjusted_width rf column) column"
  by (simp add: capped_width_def adjusted_width_def foldl_longest)

lemma adjusted_width_le: "adjusted_width rf c \<le> 50"
  by (simp add: adjusted_width_def)

lemma export_failure_not_no_data: "export_failure e \<noteq> no_data"
  by (simp add: export_failure_def no_data_def split: py_exn.split)

lemma export_import_fails:
  "env_import env = Some e \<Longrightarrow> export_test_results env query = export_failure e"
  by (simp add: export_test_results_def)

lemma export_query_fails:
  "env_import env = None \<Longrightarrow> export_test_results env (Inl e) = export_failure e"
  by (simp add: export_test_results_def)

lemma export_empty:
  "env_import env = None \<Longrightarrow> export_test_results env (Inr []) = no_data"
  by (simp add: export_test_results_def order_by_created_at_desc_def no_data_def)

lemma export_write_fails:
  "env_import env = None \<Longrightarrow> table \<noteq> [] \<Longrightarrow>
   env_to_excel env (export_data (order_by_created_at_desc table)) = Inl e \<Longrightarrow>
   export_test_results env (Inr table) = export_failure e"
  by (simp add: export_test_results_def order_by_Nil_iff)

lemma export_written:
  "env_import env = None \<Longrightarrow> table \<noteq> [] \<Longrightarrow>
   env_to_excel env (export_data (order_by_created_at_desc table)) = Inr sheet \<Longrightarrow>
   export_test_results env (Inr table)
     = Attachment (''test_results_'' @ strftime_compact (env_now env) @ ''.xlsx'')
         (export_data (order_by_created_at_desc table))
         (map (adjusted_width (env_repr_float env)) sheet)"
  by (simp add: export_test_results_def order_by_Nil_iff)


text \<open>
  C8, amended. When the libraries import and the query succeeds, the export answers with
  the no-data error, and no file, exactly when the table is empty. For a table that is
  not empty it builds the table of the 11 named columns with one row of 11 cells per
  stored record, the same records as stored, newest first: each column holds its field,
  the accuracy cell the stored float, the date cell a text that is empty without a
  timestamp and, for a year of four digits, has the form \<open>YYYY-MM-DD HH:MM:SS\<close> and spells
  the timestamp. It then answers with the file, each column of the sheet as wide as its
  longest text plus 2 and at most 50, unless the library raises while writing: then, as
  when the import or the query fails, it answers 500 with an error text and no file.
\<close>

theorem export_table:
  "(env_import env = Some e \<longrightarrow> export_test_results env query = export_failure e)
   \<and> (env_import env = None \<and> query = Inl e \<longrightarrow>
        export_test_results env query = export_failure e)
   \<and> (env_import env = None \<and> query = Inr table \<longrightarrow>
        (export_test_results env query = no_data \<longleftrightarrow> table = []))
   \<and> (env_import env = None \<and> query = Inr table \<and> table \<noteq> []
        \<and> env_to_excel env (export_data (order_by_created_at_desc table)) = Inl e \<longrightarrow>
        export_test_results env query = export_failure e)
   \<and> (env_import env = None \<and> query = Inr table \<and> table \<noteq> []
        \<and> env_to_excel env (export_data (order_by_created_at_desc table)) = Inr sheet \<longrightarrow>
        (\<exists>name frame ws.
           export_test_results env query = Attachment name frame ws
           \<and> df_columns frame =
                 [''ID'', ''Text to Translate'', ''Translated Text'', ''Source Language'',
                  ''Target Language'', ''Outcome'', ''Observation'', ''Accuracy (%)'',
                  ''Tested By'', ''Date Created'', ''Session ID'']
           \<and> length (df_rows frame) = length table
           \<and> list_all2 row_of (df_rows frame) (order_by_created_at_desc table)
           \<and> mset (order_by_created_at_desc table) = mset table
           \<and> sorted_wrt newest_first (order_by_created_at_desc table)
           \<and> list_all2 (capped_width (env_repr_float env)) ws sheet
           \<and> list_all (\<lambda>w. w \<le> 50) ws))
   \<and> (export_failure e \<noteq> no_data
        \<and> (\<exists>msg. export_failure e = JsonError 500 (JObj [(''error'', JStr msg)])))"
proof -
  have 1: "(env_import env = Some e \<longrightarrow> export_test_results env query = export_failure e)"
    by (rule impI) (rule export_import_fails)
  have 2: "(env_import env = None \<and> query = Inl e \<longrightarrow>
        export_test_results env query = export_failure e)"
    by (auto simp: export_query_fails)
  have f: "export_test_results env (Inr table) \<noteq> no_data"
    if i: "env_import env = None" and t: "table \<noteq> []"
  proof (cases "env_to_excel env (export_data (order_by_created_at_desc table))")
    case (Inl x)
    from export_write_fails [OF i t Inl] show ?thesis
      by (simp add: export_failure_not_no_data)
  next
    case (Inr sheet')
    from export_written [OF i t Inr] show ?thesis
      by (simp add: no_data_def)
  qed
  have 3: "(env_import env = None \<and> query = Inr table \<longrightarrow>
        (export_test_results env query = no_data \<longleftrightarrow> table = []))"
  proof (intro impI, elim conjE)
    assume i: "env_import env = None" and q: "query = Inr table"
    show "export_test_results env query = no_data \<longleftrightarrow> table = []"
      unfolding q using f [OF i] export_empty [OF i] by (cases "table = []") simp_all
  qed
  have 4: "(env_import env = None \<and> query = Inr table \<and> table \<noteq> []
        \<and> env_to_excel env (export_data (order_by_created_at_desc table)) = Inl e \<longrightarrow>
        export_test_results env query = export_failure e)"
    by (auto simp: export_write_fails)
  have 5: "(env_import env = None \<and> query = Inr table \<and> table \<noteq> []
        \<and> env_to_excel env (export_data (order_by_created_at_desc table)) = Inr sheet \<longrightarrow>
        (\<exists>name frame ws.
           export_test_results env query = Attachment name frame ws
           \<and> df_columns frame =
                 [''ID'', ''Text to Translate'', ''Translated Text'', ''Source Language'',
                  ''Target Language'', ''Outcome'', ''Observation'', ''Accuracy (%)'',
                  ''Tested By'', ''Date Created'', ''Session ID'']
           \<and> length (df_rows frame) = length table
           \<and> list_all2 row_of (df_rows frame) (order_by_created_at_desc table)
           \<and> mset (order_by_created_at_desc table) = mset table
           \<and> sorted_wrt newest_first (order_by_created_at_desc table)
           \<and> list_all2 (capped_width (env_repr_float env)) ws sheet
           \<and> list_all (\<lambda>w. w \<le> 50) ws))"
  proof (intro impI, elim conjE)
    assume i: "env_import env = None" and q: "query = Inr table" and t: "table \<noteq> []"
      and w: "env_to_excel env (export_data (order_by_created_at_desc table)) = Inr sheet"
    let ?results = "order_by_created_at_desc table"
    let ?ws = "map (adjusted_width (env_repr_float env)) sheet"
    have a: "export_test_results env query
               = Attachment (''test_results_'' @ strftime_compact (env_now env) @ ''.xlsx'')
                   (export_data ?results) ?ws"
      unfolding q by (rule export_written [OF i t w])
    have b: "df_columns (export_data ?results) =
                 [''ID'', ''Text to Translate'', ''Translated Text'', ''Source Language'',
                  ''Target Language'', ''Outcome'', ''Observation'', ''Accuracy (%)'',
                  ''Tested By'', ''Date Created'', ''Session ID'']"
      by (simp only: export_data_def data_frame.select_convs export_columns_def)
    have c: "length (df_rows (export_data ?results)) = length table"
      by (simp add: export_data_def order_by_length)
    have d: "list_all2 row_of (df_rows (export_data ?results)) ?results"
      by (simp add: export_data_def list_all2_map1 list_all2_same row_of_export_row)
    have g: "list_all2 (capped_width (env_repr_float env)) ?ws sheet"
      by (simp add: list_all2_map1 list_all2_same capped_width_adjusted)
    have h: "list_all (\<lambda>w. w \<le> 50) ?ws"
      by (simp add: list_all_iff adjusted_width_le)
    show "(\<exists>name frame ws.
               export_test_results env query = Attachment name frame ws
               \<and> df_columns frame =
                     [''ID'', ''Text to Translate'', ''Translated Text'', ''Source Language'',
                      ''Target Language'', ''Outcome'', ''Observation'', ''Accuracy (%)'',
                      ''Tested By'', ''Date Created'', ''Session ID'']
               \<and> length (df_rows frame) = length table
               \<and> list_all2 row_of (df_rows frame) (order_by_created_at_desc table)
               \<and> mset (order_by_created_at_desc table) = mset table
               \<and> sorted_wrt newest_first (order_by_created_at_desc table)
               \<and> list_all2 (capped_width (env_repr_float env)) ws sheet
               \<and> list_all (\<lambda>w. w \<le> 50) ws)"
      by (intro exI conjI, rule a, rule b, rule c, rule d, rule mset_order_by, rule order_by_sorted,
          rule g, rule h)
  qed
  have 6: "(export_failure e \<noteq> no_data
        \<and> (\<exists>msg. export_failure e = JsonError 500 (JObj [(''error'', JStr msg)])))"
    by (cases e) (simp_all add: export_failure_def no_data_def)
  show ?thesis
    by (intro conjI 1 2 3 4 5 6 [THEN conjunct1] 6 [THEN conjunct2])
qed

text \<open>
  An export of two records, as computed, and the sheet the libraries of the examples
  write for them; a record with an escape character in a text, which they refuse.
\<close>

lemma export_example:
  "export_test_results libraries
     (Inr [stored 1 ''Success'' new_year, stored 2 ''Failure'' mid_year])
   = Attachment ''test_results_20250101_000000.xlsx''
      \<lparr>df_columns =
         [''ID'', ''Text to Translate'', ''Translated Text'', ''Source Language'',
          ''Target Language'', ''Outcome'', ''Observation'', ''Accuracy (%)'', ''Tested By'',
          ''Date Created'', ''Session ID''],
       df_rows =
         [ [CInt 2, CNone, CNone, CStr ''auto'', CNone, CStr ''Failure'', CNone,
           CFloat (Finite 90), CNone, CStr ''2025-06-01 00:00:00'', CNone],
          [CInt 1, CNone, CNone, CStr ''auto'', CNone, CStr ''Success'', CNone,
           CFloat (Finite 90), CNone, CStr ''2025-01-01 00:00:00'', CNone]]\<rparr>
      [4, 19, 17, 17, 17, 9, 13, 14, 11, 21, 12]"
  by code_simp

lemma to_excel_example:
  "env_to_excel libraries (export_data (order_by_created_at_desc
       [stored 1 ''Success'' new_year, stored 2 ''Failure'' mid_year]))
   = Inr [ [CStr ''ID'', CInt 2, CInt 1],
          [CStr ''Text to Translate'', CStr [], CStr []],
          [CStr ''Translated Text'', CStr [], CStr []],
          [CStr ''Source Language'', CStr ''auto'', CStr ''auto''],
          [CStr ''Target Language'', CStr [], CStr []],
          [CStr ''Outcome'', CStr ''Failure'', CStr ''Success''],
          [CStr ''Observation'', CStr [], CStr []],
          [CStr ''Accuracy (%)'', CFloat (Finite 90), CFloat (Finite 90)],
          [CStr ''Tested By'', CStr [], CStr []],
          [CStr ''Date Created'', CStr ''2025-06-01 00:00:00'', CStr ''2025-01-01 00:00:00''],
          [CStr ''Session ID'', CStr [], CStr []]]"
  by code_simp

lemma to_excel_escape:
  "env_to_excel libraries (export_data (order_by_created_at_desc
       [(stored 3 ''Success'' new_year)\<lparr>translated_text := Some (''a'' @ [CHR 0x1B])\<rparr>]))
   = Inl (PyException (''a'' @ [CHR 0x1B] @ '' cannot be used in worksheets.''))"
  by code_simp

lemma plausible_mid_year: "plausible mid_year"
  by (simp add: plausible_def mid_year_def)

lemma libraries_import: "env_import libraries = None"
  by (simp add: libraries_def)

lemma libraries_missing_import:
  "env_import libraries_missing
     = Some (ImportError (''No module named '' @ [CHR 0x27] @ ''pandas'' @ [CHR 0x27]))"
  by (simp add: libraries_missing_def)

theorem export_witness:
  "export_test_results libraries_missing (Inr [stored 1 ''Success'' new_year])
     = JsonError 500
         (JObj [(''error'',
                 JStr ''Pandas and openpyxl libraries are required for Excel export'')])
   \<and> export_test_results libraries (Inl (PyException ''database is locked''))
     = JsonError 500 (JObj [(''error'', JStr ''database is locked'')])
   \<and> export_test_results libraries (Inr []) = no_data
   \<and> export_test_results libraries
        (Inr [stored 1 ''Success'' new_year, stored 2 ''Failure'' mid_year]) \<noteq> no_data
   \<and> export_test_results libraries
        (Inr [(stored 3 ''Success'' new_year)\<lparr>translated_text := Some (''a'' @ [CHR 0x1B])\<rparr>])
     = JsonError 500
         (JObj [(''error'', JStr (''a'' @ [CHR 0x1B] @ '' cannot be used in worksheets.''))])
   \<and> row_of [CInt 2, CNone, CNone, CStr ''auto'', CNone, CStr ''Failure'', CNone,
              CFloat (Finite 90), CNone, CStr ''2025-06-01 00:00:00'', CNone]
        (stored 2 ''Failure'' mid_year)
   \<and> plausible mid_year
   \<and> is_ymd_hms ''2025-06-01 00:00:00''
   \<and> read_ymd_hms ''2025-06-01 00:00:00'' = (2025, 6, 1, 0, 0, 0)
   \<and> capped_width (\<lambda>f. ''90.0'') 21
        [CStr ''Date Created'', CStr ''2025-06-01 00:00:00'', CStr ''2025-01-01 00:00:00'']
   \<and> list_all (\<lambda>w. w \<le> (50::nat)) [4, 19, 17, 17, 17, 9, 13, 14, 11, 21, 12]"
proof -
  let ?two = "[stored 1 ''Success'' new_year, stored 2 ''Failure'' mid_year]"
  let ?esc = "[(stored 3 ''Success'' new_year)\<lparr>translated_text := Some (''a'' @ [CHR 0x1B])\<rparr>]"
  from export_table [where env = libraries_missing
      and query = "Inr [stored 1 ''Success'' new_year]"
      and e = "ImportError (''No module named '' @ [CHR 0x27] @ ''pandas'' @ [CHR 0x27])"]
    libraries_missing_import
  have 1: "export_test_results libraries_missing (Inr [stored 1 ''Success'' new_year])
     = JsonError 500
         (JObj [(''error'',
                 JStr ''Pandas and openpyxl libraries are required for Excel export'')])"
    by (simp add: export_failure_def)
  from export_table [where env = libraries
      and query = "Inl (PyException ''database is locked'')"
      and e = "PyException ''database is locked''"] libraries_import
  have 2: "export_test_results libraries (Inl (PyException ''database is locked''))
     = JsonError 500 (JObj [(''error'', JStr ''database is locked'')])"
    by (simp add: export_failure_def)
  from export_table [where env = libraries and query = "Inr []" and table = "[]"]
    libraries_import
  have 3: "export_test_results libraries (Inr []) = no_data"
    by simp
  from export_table [where env = libraries and query = "Inr ?two" and table = ?two]
    libraries_import
  have 4: "export_test_results libraries (Inr ?two) \<noteq> no_data"
    by simp
  from export_table [where env = libraries and query = "Inr ?esc" and table = ?esc
      and e = "PyException (''a'' @ [CHR 0x1B] @ '' cannot be used in worksheets.'')"]
    libraries_import to_excel_escape
  have 5: "export_test_results libraries (Inr ?esc)
     = JsonError 500
         (JObj [(''error'', JStr (''a'' @ [CHR 0x1B] @ '' cannot be used in worksheets.''))])"
    by (simp add: export_failure_def)
  have n: "?two \<noteq> []"
    by simp
  let ?sheet = "[ [CStr ''ID'', CInt 2, CInt 1],
          [CStr ''Text to Translate'', CStr [], CStr []],
          [CStr ''Translated Text'', CStr [], CStr []],
          [CStr ''Source Language'', CStr ''auto'', CStr ''auto''],
          [CStr ''Target Language'', CStr [], CStr []],
          [CStr ''Outcome'', CStr ''Failure'', CStr ''Success''],
          [CStr ''Observation'', CStr [], CStr []],
          [CStr ''Accuracy (%)'', CFloat (Finite 90), CFloat (Finite 90)],
          [CStr ''Tested By'', CStr [], CStr []],
          [CStr ''Date Created'', CStr ''2025-06-01 00:00:00'', CStr ''2025-01-01 00:00:00''],
          [CStr ''Session ID'', CStr [], CStr []]]"
  note t = export_table [where env = libraries and query = "Inr ?two" and table = ?two
      and sheet = ?sheet]
  have hyp: "env_import libraries = None \<and> Inr ?two = (Inr ?two :: py_exn + test_result list)
      \<and> ?two \<noteq> []
      \<and> env_to_excel libraries (export_data (order_by_created_at_desc ?two)) = Inr ?sheet"
    by (intro conjI libraries_import refl n to_excel_example)
  from t [THEN conjunct2, THEN conjunct2, THEN conjunct2, THEN conjunct2, THEN conjunct1,
      THEN mp, OF hyp]
  obtain name frame ws where
    r: "export_test_results libraries (Inr ?two) = Attachment name frame ws"
      "list_all2 row_of (df_rows frame) (order_by_created_at_desc ?two)"
      "list_all2 (capped_width (env_repr_float libraries)) ws ?sheet"
      "list_all (\<lambda>w. w \<le> 50) ws"
    by blast
  from r(1) have fr: "frame = \<lparr>df_columns =
         [''ID'', ''Text to Translate'', ''Translated Text'', ''Source Language'',
          ''Target Language'', ''Outcome'', ''Observation'', ''Accuracy (%)'', ''Tested By'',
          ''Date Created'', ''Session ID''],
       df_rows =
         [ [CInt 2, CNone, CNone, CStr ''auto'', CNone, CStr ''Failure'', CNone,
           CFloat (Finite 90), CNone, CStr ''2025-06-01 00:00:00'', CNone],
          [CInt 1, CNone, CNone, CStr ''auto'', CNone, CStr ''Success'', CNone,
           CFloat (Finite 90), CNone, CStr ''2025-01-01 00:00:00'', CNone]]\<rparr>"
    and wd: "ws = [4, 19, 17, 17, 17, 9, 13, 14, 11, 21, 12]"
    unfolding export_example by simp_all
  have o: "order_by_created_at_desc ?two
             = [stored 2 ''Failure'' mid_year, stored 1 ''Success'' new_year]"
    by code_simp
  from r(2) have 6: "row_of [CInt 2, CNone, CNone, CStr ''auto'', CNone, CStr ''Failure'', CNone,
              CFloat (Finite 90), CNone, CStr ''2025-06-01 00:00:00'', CNone]
        (stored 2 ''Failure'' mid_year)"
    unfolding o fr data_frame.select_convs by simp
  from 6 have "shows_timestamp ''2025-06-01 00:00:00'' (created_at (stored 2 ''Failure'' mid_year))"
    by (simp add: row_of_def)
  then have "shows_timestamp ''2025-06-01 00:00:00'' (Some mid_year)"
    by (simp add: stored_def)
  with plausible_mid_year
  have 7: "is_ymd_hms ''2025-06-01 00:00:00''
           \<and> read_ymd_hms ''2025-06-01 00:00:00''
               = (year mid_year, month mid_year, day mid_year,
                  hour mid_year, minute mid_year, second mid_year)"
    by (simp add: shows_timestamp_def)
  from 7 have ymd: "is_ymd_hms ''2025-06-01 00:00:00''"
    by (rule conjunct1)
  from 7 have rd: "read_ymd_hms ''2025-06-01 00:00:00'' = (2025, 6, 1, 0, 0, 0)"
    by (simp add: mid_year_def)
  from r(3) have "list_all2 (capped_width (\<lambda>f. ''90.0''))
      [4, 19, 17, 17, 17, 9, 13, 14, 11, 21, 12] ?sheet"
    unfolding wd by (simp add: libraries_def)
  then have 8: "capped_width (\<lambda>f. ''90.0'') 21
        [CStr ''Date Created'', CStr ''2025-06-01 00:00:00'', CStr ''2025-01-01 00:00:00'']"
    by simp
  from r(4) have 9: "list_all (\<lambda>w. w \<le> (50::nat)) [4, 19, 17, 17, 17, 9, 13, 14, 11, 21, 12]"
    unfolding wd .
  show ?thesis
    by (intro conjI 1 2 3 4 5 6 plausible_mid_year ymd rd 8 9)
qed

text \<open>
  C8 as stated fails: one stored record, libraries that import, a query that succeeds,
  and neither the no-data error nor a table. The observation of the record holds a
  vertical tab, which \<open>save_test_results\<close> stores as it comes and openpyxl refuses; the
  handler answers 500 with the text of the exception.
\<close>

theorem export_control_character_no_file:
  "export_test_results libraries
     (Inr [(stored 1 ''Success'' new_year)\<lparr>observation := Some [CHR 0x0B]\<rparr>])
   = JsonError 500
       (JObj [(''error'', JStr ([CHR 0x0B] @ '' cannot be used in worksheets.''))])"
  by code_simp

end
